theory Spec2Isabelle
  imports Main "HOL-Library.Word" "HOL-Library.AList"
begin

unbundle bit_operations_syntax

section \<open>Bytes and JavaScript strings\<close>

text \<open>
  A \<^verbatim>\<open>Uint8Array\<close> is a list of 8-bit words. A JavaScript string is a sequence of
  UTF-16 code units, so it is a list of 16-bit words: \<^verbatim>\<open>length\<close>, \<^verbatim>\<open>trim\<close>,
  \<^verbatim>\<open>atob\<close> and \<^verbatim>\<open>TextEncoder\<close> all work on code units. String constants of
  the source are written \<open>js ''...''\<close>.
\<close>

type_synonym bytes = "8 word list"
type_synonym jsstring = "16 word list"

definition js :: "string \<Rightarrow> jsstring" where
  "js s = map (\<lambda>c. word_of_nat (of_char c)) s"

text \<open>
  A value that is a string or missing (\<^verbatim>\<open>undefined\<close>, \<^verbatim>\<open>null\<close>) is an option: it
  is truthy when it is a string that is not empty, and \<^verbatim>\<open>v || ''\<close> is \<open>or_empty v\<close>.
\<close>

definition truthy :: "jsstring option \<Rightarrow> bool" where
  "truthy v = (case v of None \<Rightarrow> False | Some s \<Rightarrow> s \<noteq> [])"

definition or_empty :: "jsstring option \<Rightarrow> jsstring" where
  "or_empty v = (case v of None \<Rightarrow> [] | Some s \<Rightarrow> s)"

text \<open>
  \<^verbatim>\<open>String.prototype.trim\<close>: strips the ECMAScript WhiteSpace and LineTerminator code
  points from both ends.
\<close>

definition js_whitespace :: "16 word \<Rightarrow> bool" where
  "js_whitespace c =
     (c = 0x9 \<or> c = 0xA \<or> c = 0xB \<or> c = 0xC \<or> c = 0xD \<or> c = 0x20 \<or> c = 0xA0 \<or>
      c = 0x1680 \<or> (0x2000 \<le> c \<and> c \<le> 0x200A) \<or> c = 0x2028 \<or> c = 0x2029 \<or>
      c = 0x202F \<or> c = 0x205F \<or> c = 0x3000 \<or> c = 0xFEFF)"

definition trim :: "jsstring \<Rightarrow> jsstring" where
  "trim s = rev (dropWhile js_whitespace (rev (dropWhile js_whitespace s)))"

subsection \<open>Base64: \<^verbatim>\<open>btoa\<close> and \<^verbatim>\<open>atob\<close>\<close>

definition b64char :: "nat \<Rightarrow> 16 word" where
  "b64char i =
     (if i < 26 then word_of_nat (65 + i)
      else if i < 52 then word_of_nat (71 + i)
      else if i < 62 then word_of_nat (i - 4)
      else if i = 62 then 43 else 47)"

definition b64val :: "16 word \<Rightarrow> nat option" where
  "b64val c =
     (let n = unat c in
      if 65 \<le> n \<and> n \<le> 90 then Some (n - 65)
      else if 97 \<le> n \<and> n \<le> 122 then Some (n - 71)
      else if 48 \<le> n \<and> n \<le> 57 then Some (n + 4)
      else if n = 43 then Some 62
      else if n = 47 then Some 63
      else None)"

text \<open>The base64 encoding of a byte sequence, three bytes to four characters, padded with \<open>=\<close>.\<close>

fun b64_encode :: "bytes \<Rightarrow> jsstring" where
  "b64_encode [] = []"
| "b64_encode [a] =
     (let n = unat a in [b64char (n div 4), b64char (n mod 4 * 16), 61, 61])"
| "b64_encode [a, b] =
     (let n = unat a * 256 + unat b in
      [b64char (n div 1024), b64char (n div 16 mod 64), b64char (n mod 16 * 4), 61])"
| "b64_encode (a # b # c # r) =
     (let n = unat a * 65536 + unat b * 256 + unat c in
      [b64char (n div 262144), b64char (n div 4096 mod 64), b64char (n div 64 mod 64),
       b64char (n mod 64)] @ b64_encode r)"

text \<open>
  \<^verbatim>\<open>btoa\<close> takes a binary string (every code unit below 256) and throws
  InvalidCharacterError (\<open>None\<close>) on any other string.
\<close>

definition btoa :: "jsstring \<Rightarrow> jsstring option" where
  "btoa s = (if list_all (\<lambda>c. c \<le> 255) s then Some (b64_encode (map ucast s)) else None)"

text \<open>
  \<^verbatim>\<open>atob\<close> is the forgiving-base64 decoder of the WHATWG Infra standard: ASCII
  whitespace is removed; when the length is a multiple of four, one or two trailing \<open>=\<close>
  are removed; a length that leaves remainder one, or a code unit outside the alphabet,
  is a failure (InvalidCharacterError, \<open>None\<close>); the left-over bits of a final group of
  two or three characters are discarded.
\<close>

definition ascii_whitespace :: "16 word \<Rightarrow> bool" where
  "ascii_whitespace c = (c = 0x9 \<or> c = 0xA \<or> c = 0xC \<or> c = 0xD \<or> c = 0x20)"

definition strip_padding :: "jsstring \<Rightarrow> jsstring" where
  "strip_padding d =
     (case rev d of
        c1 # c2 # t \<Rightarrow> if c1 = 61 then (if c2 = 61 then rev t else rev (c2 # t)) else d
      | [c1] \<Rightarrow> if c1 = 61 then [] else d
      | [] \<Rightarrow> d)"

fun decode_sextets :: "nat list \<Rightarrow> bytes" where
  "decode_sextets (a # b # c # d # r) =
     (let n = ((a * 64 + b) * 64 + c) * 64 + d in
      word_of_nat (n div 65536) # word_of_nat (n div 256 mod 256) # word_of_nat (n mod 256) #
      decode_sextets r)"
| "decode_sextets [a, b, c] =
     (let n = (a * 64 + b) * 64 + c in [word_of_nat (n div 1024), word_of_nat (n div 4 mod 256)])"
| "decode_sextets [a, b] = [word_of_nat ((a * 64 + b) div 16)]"
| "decode_sextets [a] = []"
| "decode_sextets [] = []"

definition atob :: "jsstring \<Rightarrow> jsstring option" where
  "atob s =
     (let d = filter (\<lambda>c. \<not> ascii_whitespace c) s;
          d' = (if length d mod 4 = 0 then strip_padding d else d)
      in if length d' mod 4 = 1 then None
         else map_option (\<lambda>vs. map ucast (decode_sextets vs)) (those (map b64val d')))"

text \<open>
  \<^verbatim>\<open>String.fromCharCode\<close>, called with the bytes as its arguments, returns the string
  that has, for each byte, the code unit of the same value.
\<close>

definition fromCharCode :: "bytes \<Rightarrow> jsstring" where
  "fromCharCode bs = map ucast bs"

subsection \<open>\<^verbatim>\<open>TextEncoder\<close>: UTF-16 code units to UTF-8 bytes\<close>

text \<open>
  \<^verbatim>\<open>encoder.encode(text)\<close> first converts the string to scalar values (a surrogate
  pair becomes one code point, a lone surrogate becomes U+FFFD) and then writes each
  scalar value in UTF-8.
\<close>

definition utf8_bytes :: "nat \<Rightarrow> bytes" where
  "utf8_bytes n =
     (if n < 0x80 then [word_of_nat n]
      else if n < 0x800 then [word_of_nat (0xC0 + n div 64), word_of_nat (0x80 + n mod 64)]
      else if n < 0x10000 then
        [word_of_nat (0xE0 + n div 4096), word_of_nat (0x80 + n div 64 mod 64),
         word_of_nat (0x80 + n mod 64)]
      else
        [word_of_nat (0xF0 + n div 262144), word_of_nat (0x80 + n div 4096 mod 64),
         word_of_nat (0x80 + n div 64 mod 64), word_of_nat (0x80 + n mod 64)])"

definition high_surrogate :: "16 word \<Rightarrow> bool" where
  "high_surrogate c = (0xD800 \<le> c \<and> c \<le> 0xDBFF)"

definition low_surrogate :: "16 word \<Rightarrow> bool" where
  "low_surrogate c = (0xDC00 \<le> c \<and> c \<le> 0xDFFF)"

definition pair_code_point :: "16 word \<Rightarrow> 16 word \<Rightarrow> nat" where
  "pair_code_point h l = 0x10000 + (unat h - 0xD800) * 0x400 + (unat l - 0xDC00)"

fun utf8_encode :: "jsstring \<Rightarrow> bytes" where
  "utf8_encode [] = []"
| "utf8_encode [c] =
     (if high_surrogate c \<or> low_surrogate c then utf8_bytes 0xFFFD else utf8_bytes (unat c))"
| "utf8_encode (c # d # r) =
     (if high_surrogate c then
        (if low_surrogate d then utf8_bytes (pair_code_point c d) @ utf8_encode r
         else utf8_bytes 0xFFFD @ utf8_encode (d # r))
      else if low_surrogate c then utf8_bytes 0xFFFD @ utf8_encode (d # r)
      else utf8_bytes (unat c) @ utf8_encode (d # r))"

text \<open>A string is well-formed UTF-16 when every surrogate is part of a pair.\<close>

fun well_formed :: "jsstring \<Rightarrow> bool" where
  "well_formed [] = True"
| "well_formed [c] = (\<not> high_surrogate c \<and> \<not> low_surrogate c)"
| "well_formed (c # d # r) =
     (if high_surrogate c then low_surrogate d \<and> well_formed r
      else \<not> low_surrogate c \<and> well_formed (d # r))"

subsection \<open>\<^verbatim>\<open>TextDecoder\<close>: UTF-8 bytes to UTF-16 code units\<close>

text \<open>
  The UTF-8 decoder of the WHATWG Encoding standard, in its replacement mode: the state
  is the code point being built, the bytes seen and needed, and the bounds of the next
  continuation byte. A byte that cannot continue a sequence gives U+FFFD and is read
  again as the start of a sequence. \<^verbatim>\<open>decode\<close> without options then drops a leading
  U+FEFF (the byte order mark) and writes the code points as UTF-16.
\<close>

fun utf8_decoder :: "nat \<Rightarrow> nat \<Rightarrow> nat \<Rightarrow> nat \<Rightarrow> nat \<Rightarrow> bytes \<Rightarrow> nat list" where
  "utf8_decoder cp seen needed lower upper [] = (if needed \<noteq> 0 then [0xFFFD] else [])"
| "utf8_decoder cp seen needed lower upper (w # bs) =
     (if needed = 0 then
        (if unat w \<le> 0x7F then unat w # utf8_decoder 0 0 0 0x80 0xBF bs
         else if 0xC2 \<le> unat w \<and> unat w \<le> 0xDF then
           utf8_decoder (unat w mod 32) 0 1 0x80 0xBF bs
         else if 0xE0 \<le> unat w \<and> unat w \<le> 0xEF then
           utf8_decoder (unat w mod 16) 0 2 (if unat w = 0xE0 then 0xA0 else 0x80)
             (if unat w = 0xED then 0x9F else 0xBF) bs
         else if 0xF0 \<le> unat w \<and> unat w \<le> 0xF4 then
           utf8_decoder (unat w mod 8) 0 3 (if unat w = 0xF0 then 0x90 else 0x80)
             (if unat w = 0xF4 then 0x8F else 0xBF) bs
         else 0xFFFD # utf8_decoder 0 0 0 0x80 0xBF bs)
      else if unat w < lower \<or> upper < unat w then
        0xFFFD # utf8_decoder 0 0 0 0x80 0xBF (w # bs)
      else if seen + 1 \<noteq> needed then
        utf8_decoder (cp * 64 + unat w mod 64) (seen + 1) needed 0x80 0xBF bs
      else (cp * 64 + unat w mod 64) # utf8_decoder 0 0 0 0x80 0xBF bs)"

definition utf16_units :: "nat \<Rightarrow> jsstring" where
  "utf16_units n =
     (if n < 0x10000 then [word_of_nat n]
      else [word_of_nat (0xD800 + (n - 0x10000) div 0x400),
            word_of_nat (0xDC00 + (n - 0x10000) mod 0x400)])"

definition strip_bom :: "nat list \<Rightarrow> nat list" where
  "strip_bom cps = (case cps of [] \<Rightarrow> [] | c # r \<Rightarrow> if c = 0xFEFF then r else c # r)"

definition utf8_decode :: "bytes \<Rightarrow> jsstring" where
  "utf8_decode bs = concat (map utf16_units (strip_bom (utf8_decoder 0 0 0 0x80 0xBF bs)))"

section \<open>The platform the application runs on\<close>

text \<open>
  The browser and the libraries are collaborators whose code is not part of the
  repository. What the application calls is a parameter of the model, so every theorem
  holds for every behaviour of the platform:
  \<^item> \<open>spread_accepted n\<close> says whether the engine accepts a call with \<open>n\<close> arguments:
    \<^verbatim>\<open>String.fromCharCode(...bytes)\<close> passes every byte as one argument, and an engine
    throws RangeError when there are more than it can take;
  \<^item> \<open>randomPrivateKey\<close>, \<open>getPublicKey\<close> and \<open>getSharedSecret\<close> are the calls into
    noble-secp256k1 (the last two always with \<^verbatim>\<open>isCompressed = true\<close>); \<open>None\<close> is a
    thrown exception (an invalid private key, a public key of the wrong length or not on
    the curve);
  \<^item> \<open>hkdf ikm salt info\<close> is \<^verbatim>\<open>importKey\<close> followed by \<^verbatim>\<open>deriveKey\<close> (HKDF, SHA-256,
    a 256-bit AES-GCM key);
  \<^item> \<open>aes_gcm_encrypt key iv plaintext\<close> and \<open>aes_gcm_decrypt key iv data\<close> are
    \<^verbatim>\<open>crypto.subtle.encrypt\<close> and \<^verbatim>\<open>decrypt\<close>; \<open>None\<close> is the OperationError of a
    failed authentication;
  \<^item> an \<^verbatim>\<open>RTCPeerConnection\<close> is the list of the calls it has accepted;
    \<open>transport_accepts\<close> says whether the promise of the next call resolves, and
    \<open>transport_sdp\<close> is the session description \<^verbatim>\<open>createOffer\<close> or
    \<^verbatim>\<open>createAnswer\<close> produced.
\<close>

text \<open>
  \<^verbatim>\<open>crypto.getRandomValues\<close> reads a source of random bytes; filling an array of
  \<open>n\<close> bytes consumes the next \<open>n\<close> of them.
\<close>

type_synonym random_source = "nat \<Rightarrow> 8 word"

definition getRandomValues :: "nat \<Rightarrow> random_source \<Rightarrow> bytes \<times> random_source" where
  "getRandomValues n r = (map r [0..<n], \<lambda>i. r (i + n))"

datatype peer_op =
    SetRemoteDescription jsstring "jsstring option"
  | CreateAnswer
  | CreateOffer
  | SetLocalDescription jsstring jsstring
  | AddIceCandidate jsstring

record platform =
  spread_accepted :: "nat \<Rightarrow> bool"
  randomPrivateKey :: "random_source \<Rightarrow> bytes"
  getPublicKey :: "bytes \<Rightarrow> bytes option"
  getSharedSecret :: "bytes \<Rightarrow> bytes \<Rightarrow> bytes option"
  hkdf :: "bytes \<Rightarrow> bytes \<Rightarrow> bytes \<Rightarrow> bytes"
  aes_gcm_encrypt :: "bytes \<Rightarrow> bytes \<Rightarrow> bytes \<Rightarrow> bytes"
  aes_gcm_decrypt :: "bytes \<Rightarrow> bytes \<Rightarrow> bytes \<Rightarrow> bytes option"
  transport_accepts :: "peer_op list \<Rightarrow> peer_op \<Rightarrow> bool"
  transport_sdp :: "peer_op list \<Rightarrow> jsstring"

text \<open>The exceptions that reach the application, named after what throws them.\<close>

datatype exn =
    RangeError             \<comment> \<open>\<^verbatim>\<open>String.fromCharCode\<close> spread over too many bytes\<close>
  | InvalidCharacterError  \<comment> \<open>\<^verbatim>\<open>atob\<close> on a string that is not base64\<close>
  | CurveError             \<comment> \<open>noble-secp256k1 on an invalid key or point\<close>
  | OperationError         \<comment> \<open>\<^verbatim>\<open>crypto.subtle.decrypt\<close>: authentication failed\<close>
  | TransportError         \<comment> \<open>a rejected \<^verbatim>\<open>RTCPeerConnection\<close> promise\<close>
  | NoRoomError            \<comment> \<open>\<^verbatim>\<open>ensureRoom\<close>\<close>
  | SyntaxError            \<comment> \<open>\<^verbatim>\<open>JSON.parse\<close>\<close>

section \<open>The application state\<close>

datatype ready_state = Connecting | Open | Closing | Closed

record payload =
  iv :: jsstring
  data :: jsstring

record data_channel =
  readyState :: ready_state
  sent :: "payload list"

record keypair =
  priv :: bytes
  pub :: bytes

text \<open>
  The object \<^verbatim>\<open>createConnection\<close> returns. Its \<open>aesKey\<close> is also the variable
  \<^verbatim>\<open>aesKey\<close> the callbacks of that call have captured: both get the same value in
  \<^verbatim>\<open>createConnection\<close> and the source assigns neither again.
\<close>

record conn =
  peerId :: jsstring
  peer :: "peer_op list"
  channel :: data_channel
  aesKey :: "bytes option"

text \<open>
  A signaling event as the medium delivers it. Every field may be missing, and a field
  that is there holds a string, which may be empty. The candidate, which the sending
  side gives as an object, is described by its text; an object is truthy, and its text
  is not empty. \<open>ts\<close>, the wall-clock time of \<^verbatim>\<open>sendSignal\<close>, is never read
  and is left out.
\<close>

record signal =
  sig_type :: "jsstring option"
  sig_from :: "jsstring option"
  sig_sdp :: "jsstring option"
  sig_pub :: "jsstring option"
  sig_candidate :: "jsstring option"

text \<open>
  The texts shown to the user: \<open>status\<close> is what \<^verbatim>\<open>setStatus\<close> writes, \<open>notice\<close> what
  \<^verbatim>\<open>alert\<close> shows (the source's texts are Russian; each constructor stands for one of
  them), \<open>message\<close> what \<^verbatim>\<open>addMessage\<close> appends.
\<close>

datatype status =
    NoStatus
  | InRoom jsstring
  | OfferSent jsstring
  | AnswerSent jsstring
  | ConnectionEstablished jsstring
  | ChannelOpen jsstring

datatype notice =
    SeedImported | InvalidSeed | NoActiveChannel | NeedIdAndPub | EnterRoomId
  | KeysUpdated | SeedCopied

datatype message = FromMe jsstring | FromPeer jsstring jsstring | KeyNotReady jsstring

text \<open>
  The module's variables, \<^verbatim>\<open>localStorage\<close>, the fields of the page the code reads
  and writes (\<open>el_\<close>), and what the code has sent out: the signals written to the medium
  (room, mailbox, event), the alerts and the clipboard. \<open>subscriptions\<close> are the
  mailboxes (room, identifier) on which \<^verbatim>\<open>listenSignals\<close> has registered its
  callback; the source never removes one.

  Session objects are shared: the map \<^verbatim>\<open>connections\<close> holds references to them, and
  the callbacks of a transport and of its channels belong to the object they were
  created with, whether or not the map still refers to it. So the objects live in a
  store, \<open>sessions\<close>: every object \<^verbatim>\<open>createConnection\<close> has returned, in the order of
  creation, the position in the list being the identity of the object.
  \<open>connections\<close> is a JavaScript \<^verbatim>\<open>Map\<close>, which keeps insertion order: an
  association list from peer identifiers to positions in the store, \<^verbatim>\<open>set\<close> being
  \<open>AList.update\<close> (an existing key keeps its place, a new key goes last).
\<close>

type_synonym storage = "(jsstring \<times> jsstring) list"

record state =
  room :: "jsstring option"
  myKeyPair :: keypair
  myId :: jsstring
  myPubB64 :: jsstring
  sessions :: "conn list"
  connections :: "(jsstring \<times> nat) list"
  signalSeen :: "jsstring set"
  subscriptions :: "(jsstring \<times> jsstring) list"
  localStorage :: storage
  clipboard :: jsstring
  el_myId :: jsstring
  el_myPub :: jsstring
  el_importSeedInput :: jsstring
  el_roomId :: jsstring
  el_peerId :: jsstring
  el_peerPub :: jsstring
  el_status :: status
  el_messages :: "message list"
  el_messageInput :: jsstring
  published :: "(jsstring \<times> jsstring \<times> signal) list"
  alerts :: "notice list"

text \<open>
  The session object at a position of the store. A reference always points into the
  store; \<open>None\<close> stands for a reference that does not, which no state the application
  reaches holds.
\<close>

definition session :: "state \<Rightarrow> nat \<Rightarrow> conn option" where
  "session st a = (if a < length (sessions st) then Some (sessions st ! a) else None)"

text \<open>
  \<^verbatim>\<open>[...connections.values()]\<close>: the objects the map refers to, in the order of the
  map, each with its position in the store.
\<close>

definition connection_values :: "state \<Rightarrow> (nat \<times> conn) list" where
  "connection_values st =
     concat (map (\<lambda>(k, a). case session st a of None \<Rightarrow> [] | Some c \<Rightarrow> [(a, c)]) (connections st))"

section \<open>The operations of \<^verbatim>\<open>app.js\<close>\<close>

text \<open>
  Each \<^verbatim>\<open>async\<close> function is modelled as one step that runs to its end or to its
  first exception: the interleaving of two handlers at an \<^verbatim>\<open>await\<close> is not modelled.
  A function that can throw after it has changed the state returns the state it reached
  together with the exception.
\<close>

subsection \<open>Base64 of byte arrays\<close>

text \<open>
  \<^verbatim>\<open>toB64\<close> spreads the bytes into the arguments of \<^verbatim>\<open>String.fromCharCode\<close>, which
  throws RangeError when the engine does not accept that many, and gives the string to
  \<^verbatim>\<open>btoa\<close>. \<^verbatim>\<open>fromB64\<close> is \<^verbatim>\<open>atob\<close> followed by
  \<^verbatim>\<open>Uint8Array.from(bin, c => c.charCodeAt(0))\<close>, which turns each code unit into a
  byte (modulo 256); \<open>None\<close> is the InvalidCharacterError of \<^verbatim>\<open>atob\<close>.
\<close>

definition toB64 :: "platform \<Rightarrow> bytes \<Rightarrow> exn + jsstring" where
  "toB64 P bs =
     (if spread_accepted P (length bs) then
        (case btoa (fromCharCode bs) of
           None \<Rightarrow> Inl InvalidCharacterError
         | Some s \<Rightarrow> Inr s)
      else Inl RangeError)"

definition fromB64 :: "jsstring \<Rightarrow> bytes option" where
  "fromB64 str = map_option (map ucast) (atob str)"

definition shortId :: "platform \<Rightarrow> bytes \<Rightarrow> exn + jsstring" where
  "shortId P bs =
     (case toB64 P (take 6 bs) of
        Inl e \<Rightarrow> Inl e
      | Inr s \<Rightarrow> Inr (filter (\<lambda>c. c \<noteq> 61) s))"

subsection \<open>Identity\<close>

text \<open>
  \<^verbatim>\<open>setIdentity\<close> assigns the module's variables one after the other, so an exception
  of \<^verbatim>\<open>toB64\<close> or \<^verbatim>\<open>shortId\<close> leaves the assignments before it in place.
\<close>

definition setIdentity :: "platform \<Rightarrow> keypair \<Rightarrow> state \<Rightarrow> state \<times> exn option" where
  "setIdentity P pair st =
     (let st1 = st\<lparr>myKeyPair := pair\<rparr> in
      case toB64 P (pub pair) of
        Inl e \<Rightarrow> (st1, Some e)
      | Inr p \<Rightarrow>
          (let st2 = st1\<lparr>myPubB64 := p\<rparr> in
           case shortId P (pub pair) of
             Inl e \<Rightarrow> (st2, Some e)
           | Inr i \<Rightarrow> (st2\<lparr>myId := i, el_myId := i, el_myPub := p\<rparr>, None)))"

definition storageKeys_priv :: jsstring where
  "storageKeys_priv = js ''maxkorotzi_priv''"

definition storageKeys_pub :: jsstring where
  "storageKeys_pub = js ''maxkorotzi_pub''"

definition alert :: "notice \<Rightarrow> state \<Rightarrow> state" where
  "alert n st = st\<lparr>alerts := alerts st @ [n]\<rparr>"

text \<open>
  \<^verbatim>\<open>importSeed\<close>: the whole body after the empty check is inside \<^verbatim>\<open>try\<close>, and every
  exception ends in the same alert, with what was written before it left in place.
  \<^verbatim>\<open>localStorage.setItem\<close> is taken to succeed.
\<close>

definition importSeed :: "platform \<Rightarrow> state \<Rightarrow> state" where
  "importSeed P st =
     (let seed = trim (el_importSeedInput st) in
      if seed = [] then st
      else
        (case fromB64 seed of
           None \<Rightarrow> alert InvalidSeed st
         | Some prv \<Rightarrow>
             if length prv \<noteq> 32 then alert InvalidSeed st
             else
               (case getPublicKey P prv of
                  None \<Rightarrow> alert InvalidSeed st
                | Some pb \<Rightarrow>
                    (case toB64 P prv of
                       Inl e \<Rightarrow> alert InvalidSeed st
                     | Inr prv64 \<Rightarrow>
                         (let st1 = st\<lparr>localStorage :=
                                          AList.update storageKeys_priv prv64 (localStorage st)\<rparr>
                          in case toB64 P pb of
                               Inl e \<Rightarrow> alert InvalidSeed st1
                             | Inr pb64 \<Rightarrow>
                                 (let st2 = st1\<lparr>localStorage :=
                                                   AList.update storageKeys_pub pb64 (localStorage st1)\<rparr>
                                  in case setIdentity P \<lparr>priv = prv, pub = pb\<rparr> st2 of
                                       (st3, Some e) \<Rightarrow> alert InvalidSeed st3
                                     | (st3, None) \<Rightarrow> alert SeedImported st3))))))"

definition generateKeyPair :: "platform \<Rightarrow> random_source \<Rightarrow> exn + keypair" where
  "generateKeyPair P rnd =
     (let prv = randomPrivateKey P rnd in
      case getPublicKey P prv of
        None \<Rightarrow> Inl CurveError
      | Some pb \<Rightarrow> Inr \<lparr>priv = prv, pub = pb\<rparr>)"

text \<open>
  \<^verbatim>\<open>loadOrCreateKeys\<close>, on the content of \<^verbatim>\<open>localStorage\<close>: the content it leaves,
  and the keypair or the exception.
\<close>

definition loadOrCreateKeys ::
  "platform \<Rightarrow> random_source \<Rightarrow> storage \<Rightarrow> storage \<times> (exn + keypair)" where
  "loadOrCreateKeys P rnd ls =
     (let privStored = map_of ls storageKeys_priv; pubStored = map_of ls storageKeys_pub in
      if truthy privStored \<and> truthy pubStored then
        (case fromB64 (or_empty privStored) of
           None \<Rightarrow> (ls, Inl InvalidCharacterError)
         | Some prv \<Rightarrow>
             (case fromB64 (or_empty pubStored) of
                None \<Rightarrow> (ls, Inl InvalidCharacterError)
              | Some pb \<Rightarrow> (ls, Inr \<lparr>priv = prv, pub = pb\<rparr>)))
      else
        (case generateKeyPair P rnd of
           Inl e \<Rightarrow> (ls, Inl e)
         | Inr pair \<Rightarrow>
             (case toB64 P (priv pair) of
                Inl e \<Rightarrow> (ls, Inl e)
              | Inr prv64 \<Rightarrow>
                  (let ls1 = AList.update storageKeys_priv prv64 ls in
                   case toB64 P (pub pair) of
                     Inl e \<Rightarrow> (ls1, Inl e)
                   | Inr pb64 \<Rightarrow> (AList.update storageKeys_pub pb64 ls1, Inr pair)))))"

text \<open>
  \<^verbatim>\<open>init\<close> on a freshly loaded page (the fields of the page are taken to be empty): the
  module's variables have their initial values, the identity is loaded or created and
  set. Only then are the click handlers registered, so no handler runs while
  \<^verbatim>\<open>myKeyPair\<close> is still \<^verbatim>\<open>null\<close>, and the state has no value for that. When
  \<^verbatim>\<open>init\<close> throws, no handler is ever registered: what is left is the content of
  \<^verbatim>\<open>localStorage\<close>.
\<close>

definition init :: "platform \<Rightarrow> random_source \<Rightarrow> storage \<Rightarrow> storage \<times> (exn + state)" where
  "init P rnd ls =
     (case loadOrCreateKeys P rnd ls of
        (ls', Inl e) \<Rightarrow> (ls', Inl e)
      | (ls', Inr pair) \<Rightarrow>
          (case setIdentity P pair
                  \<lparr>room = None, myKeyPair = pair, myId = [], myPubB64 = [], sessions = [],
                   connections = [], signalSeen = {}, subscriptions = [], localStorage = ls',
                   clipboard = [], el_myId = [], el_myPub = [], el_importSeedInput = [],
                   el_roomId = [], el_peerId = [], el_peerPub = [], el_status = NoStatus,
                   el_messages = [], el_messageInput = [], published = [], alerts = []\<rparr> of
             (st, Some e) \<Rightarrow> (ls', Inl e)
           | (st, None) \<Rightarrow> (ls', Inr st)))"

definition regenerate :: "platform \<Rightarrow> random_source \<Rightarrow> state \<Rightarrow> state \<times> exn option" where
  "regenerate P rnd st =
     (let st1 = st\<lparr>localStorage :=
                     AList.delete storageKeys_pub (AList.delete storageKeys_priv (localStorage st))\<rparr>
      in case generateKeyPair P rnd of
           Inl e \<Rightarrow> (st1, Some e)
         | Inr pair \<Rightarrow>
             (case toB64 P (priv pair) of
                Inl e \<Rightarrow> (st1, Some e)
              | Inr prv64 \<Rightarrow>
                  (let st2 = st1\<lparr>localStorage :=
                                   AList.update storageKeys_priv prv64 (localStorage st1)\<rparr>
                   in case toB64 P (pub pair) of
                        Inl e \<Rightarrow> (st2, Some e)
                      | Inr pb64 \<Rightarrow>
                          (let st3 = st2\<lparr>localStorage :=
                                           AList.update storageKeys_pub pb64 (localStorage st2)\<rparr>
                           in case setIdentity P pair st3 of
                                (st4, Some e) \<Rightarrow> (st4, Some e)
                              | (st4, None) \<Rightarrow> (alert KeysUpdated st4, None)))))"

definition exportSeed :: "platform \<Rightarrow> state \<Rightarrow> state \<times> exn option" where
  "exportSeed P st =
     (case toB64 P (priv (myKeyPair st)) of
        Inl e \<Rightarrow> (st, Some e)
      | Inr seed \<Rightarrow> (alert SeedCopied (st\<lparr>clipboard := seed\<rparr>), None))"

text \<open>The click handler of the copy button, registered in \<^verbatim>\<open>init\<close>.\<close>

definition copyId :: "state \<Rightarrow> state" where
  "copyId st = st\<lparr>clipboard := myId st\<rparr>"

subsection \<open>Session keys and messages\<close>

definition deriveAesKey :: "platform \<Rightarrow> state \<Rightarrow> jsstring \<Rightarrow> jsstring \<Rightarrow> exn + bytes" where
  "deriveAesKey P st peerPubB64 saltText =
     (case fromB64 peerPubB64 of
        None \<Rightarrow> Inl InvalidCharacterError
      | Some peerPub \<Rightarrow>
          (case getSharedSecret P (priv (myKeyPair st)) peerPub of
             None \<Rightarrow> Inl CurveError
           | Some shared \<Rightarrow>
               Inr (hkdf P (drop 1 shared) (utf8_encode saltText)
                      (utf8_encode (js ''maxkorotzi-e2ee'')))))"

text \<open>
  \<^verbatim>\<open>encryptMessage\<close> draws the nonce, encrypts, and writes nonce and ciphertext in
  base64, the nonce first; the random bytes are consumed also when \<^verbatim>\<open>toB64\<close> throws.
\<close>

definition encryptMessage ::
  "platform \<Rightarrow> random_source \<Rightarrow> bytes \<Rightarrow> jsstring \<Rightarrow> (exn + payload) \<times> random_source" where
  "encryptMessage P rnd key text =
     (let (nonce, rnd') = getRandomValues 12 rnd;
          cipher = aes_gcm_encrypt P key nonce (utf8_encode text)
      in case toB64 P nonce of
           Inl e \<Rightarrow> (Inl e, rnd')
         | Inr nonce64 \<Rightarrow>
             (case toB64 P cipher of
                Inl e \<Rightarrow> (Inl e, rnd')
              | Inr cipher64 \<Rightarrow> (Inr \<lparr>iv = nonce64, data = cipher64\<rparr>, rnd')))"

definition decryptMessage :: "platform \<Rightarrow> bytes \<Rightarrow> payload \<Rightarrow> exn + jsstring" where
  "decryptMessage P key pl =
     (case fromB64 (iv pl) of
        None \<Rightarrow> Inl InvalidCharacterError
      | Some nonce \<Rightarrow>
          (case fromB64 (data pl) of
             None \<Rightarrow> Inl InvalidCharacterError
           | Some cipher \<Rightarrow>
               (case aes_gcm_decrypt P key nonce cipher of
                  None \<Rightarrow> Inl OperationError
                | Some plain \<Rightarrow> Inr (utf8_decode plain))))"

subsection \<open>Signaling\<close>

definition resetSignals :: "state \<Rightarrow> state" where
  "resetSignals st = st\<lparr>signalSeen := {}\<rparr>"

definition setStatus :: "status \<Rightarrow> state \<Rightarrow> state" where
  "setStatus t st = st\<lparr>el_status := t\<rparr>"

definition addMessage :: "message \<Rightarrow> state \<Rightarrow> state" where
  "addMessage m st = st\<lparr>el_messages := el_messages st @ [m]\<rparr>"

text \<open>\<^verbatim>\<open>sendSignal\<close> writes the event, stamped with the sender, to the mailbox of the target.\<close>

definition sendSignal :: "jsstring \<Rightarrow> signal \<Rightarrow> state \<Rightarrow> state" where
  "sendSignal targetId pl st =
     (case room st of
        None \<Rightarrow> st
      | Some r \<Rightarrow> st\<lparr>published := published st @ [(r, targetId, pl\<lparr>sig_from := Some (myId st)\<rparr>)]\<rparr>)"

definition new_channel :: data_channel where
  "new_channel = \<lparr>readyState = Connecting, sent = []\<rparr>"

text \<open>
  \<^verbatim>\<open>createConnection\<close> derives the key when it is given a public key, and returns a new
  session object: the state with the object added to the store, and its position. When
  the derivation throws there is no object.
\<close>

definition createConnection :: "platform \<Rightarrow> state \<Rightarrow> jsstring \<Rightarrow> jsstring \<Rightarrow> exn + state \<times> nat" where
  "createConnection P st pid peerPubB64 =
     (let roomSalt = (if trim (el_roomId st) = [] then js ''maxkorotzi'' else trim (el_roomId st))
      in case (if peerPubB64 \<noteq> [] then map_sum id Some (deriveAesKey P st peerPubB64 roomSalt)
               else Inr None) of
           Inl e \<Rightarrow> Inl e
         | Inr k \<Rightarrow>
             Inr (st\<lparr>sessions :=
                       sessions st @ [\<lparr>peerId = pid, peer = [], channel = new_channel, aesKey = k\<rparr>]\<rparr>,
                  length (sessions st)))"

text \<open>
  The callbacks \<^verbatim>\<open>createConnection\<close> installs, for the session object they belong to
  (\<open>pid\<close> is its \<^verbatim>\<open>peerId\<close>, \<open>key\<close> its \<^verbatim>\<open>aesKey\<close>). \<^verbatim>\<open>peer.onicecandidate\<close> gets a
  candidate object, or \<^verbatim>\<open>null\<close> at the end of gathering. \<^verbatim>\<open>peer.ondatachannel\<close> binds
  \<^verbatim>\<open>onopen\<close> and \<^verbatim>\<open>onmessage\<close> to the channel the peer offered as well; it assigns the
  local variable \<^verbatim>\<open>channel\<close> only, so the \<open>channel\<close> of the session object stays the
  channel created here. In \<^verbatim>\<open>onmessage\<close>, \<open>parsed\<close> is the result of \<^verbatim>\<open>JSON.parse\<close>
  (\<open>None\<close> when it throws), taken to be an object with the two strings
  \<^verbatim>\<open>sendMessage\<close> puts there.
\<close>

definition onicecandidate :: "jsstring \<Rightarrow> jsstring option \<Rightarrow> state \<Rightarrow> state" where
  "onicecandidate pid cand st =
     (if truthy cand then
        sendSignal pid
          \<lparr>sig_type = Some (js ''ice''), sig_from = None, sig_sdp = None, sig_pub = None,
           sig_candidate = cand\<rparr> st
      else st)"

definition onopen :: "jsstring \<Rightarrow> state \<Rightarrow> state" where
  "onopen pid st = setStatus (ChannelOpen pid) st"

definition onmessage ::
  "platform \<Rightarrow> jsstring \<Rightarrow> bytes option \<Rightarrow> payload option \<Rightarrow> state \<Rightarrow> state \<times> exn option" where
  "onmessage P pid key parsed st =
     (case key of
        None \<Rightarrow> (addMessage (KeyNotReady pid) st, None)
      | Some k \<Rightarrow>
          (case parsed of
             None \<Rightarrow> (st, Some SyntaxError)
           | Some pl \<Rightarrow>
               (case decryptMessage P k pl of
                  Inl e \<Rightarrow> (st, Some e)
                | Inr text \<Rightarrow> (addMessage (FromPeer pid text) st, None))))"

text \<open>
  A call on the \<^verbatim>\<open>RTCPeerConnection\<close> of the session object at position \<open>a\<close>: an
  accepted call is added to those the transport has taken.
\<close>

definition peer_call :: "platform \<Rightarrow> nat \<Rightarrow> peer_op \<Rightarrow> state \<Rightarrow> exn + state" where
  "peer_call P a op st =
     (case session st a of
        None \<Rightarrow> Inl TransportError
      | Some c \<Rightarrow>
          if transport_accepts P (peer c) op
          then Inr (st\<lparr>sessions := (sessions st)[a := c\<lparr>peer := peer c @ [op]\<rparr>]\<rparr>)
          else Inl TransportError)"

definition created_sdp :: "platform \<Rightarrow> nat \<Rightarrow> state \<Rightarrow> jsstring" where
  "created_sdp P a st = (case session st a of None \<Rightarrow> [] | Some c \<Rightarrow> transport_sdp P (peer c))"

text \<open>
  The three branches of \<^verbatim>\<open>handleSignal\<close> on \<^verbatim>\<open>data.type\<close>, for the session object
  \<open>conn\<close> at position \<open>a\<close>. The third one tests \<^verbatim>\<open>data.candidate\<close> for truthiness.
\<close>

definition handleOffer :: "platform \<Rightarrow> nat \<Rightarrow> jsstring \<Rightarrow> signal \<Rightarrow> state \<Rightarrow> state \<times> exn option" where
  "handleOffer P a fromId d st =
     (case peer_call P a (SetRemoteDescription (js ''offer'') (sig_sdp d)) st of
        Inl e \<Rightarrow> (st, Some e)
      | Inr st1 \<Rightarrow>
          (case peer_call P a CreateAnswer st1 of
             Inl e \<Rightarrow> (st1, Some e)
           | Inr st2 \<Rightarrow>
               (let answer = created_sdp P a st2 in
                case peer_call P a (SetLocalDescription (js ''answer'') answer) st2 of
                  Inl e \<Rightarrow> (st2, Some e)
                | Inr st3 \<Rightarrow>
                    (setStatus (AnswerSent fromId)
                       (sendSignal fromId
                          \<lparr>sig_type = Some (js ''answer''), sig_from = None,
                           sig_sdp = Some answer, sig_pub = Some (myPubB64 st3),
                           sig_candidate = None\<rparr> st3), None))))"

definition handleAnswer :: "platform \<Rightarrow> nat \<Rightarrow> jsstring \<Rightarrow> signal \<Rightarrow> state \<Rightarrow> state \<times> exn option" where
  "handleAnswer P a fromId d st =
     (case peer_call P a (SetRemoteDescription (js ''answer'') (sig_sdp d)) st of
        Inl e \<Rightarrow> (st, Some e)
      | Inr st1 \<Rightarrow> (setStatus (ConnectionEstablished fromId) st1, None))"

definition handleIce :: "platform \<Rightarrow> nat \<Rightarrow> signal \<Rightarrow> state \<Rightarrow> state \<times> exn option" where
  "handleIce P a d st =
     (if truthy (sig_candidate d) then
        (case peer_call P a (AddIceCandidate (or_empty (sig_candidate d))) st of
           Inl e \<Rightarrow> (st, Some e)
         | Inr st1 \<Rightarrow> (st1, None))
      else (st, None))"

definition dispatch :: "platform \<Rightarrow> nat \<Rightarrow> jsstring \<Rightarrow> signal \<Rightarrow> state \<Rightarrow> state \<times> exn option" where
  "dispatch P a fromId d st =
     (if sig_type d = Some (js ''offer'') then handleOffer P a fromId d st
      else if sig_type d = Some (js ''answer'') then handleAnswer P a fromId d st
      else if sig_type d = Some (js ''ice'') then handleIce P a d st
      else (st, None))"

definition handleSignal :: "platform \<Rightarrow> signal \<Rightarrow> state \<Rightarrow> state \<times> exn option" where
  "handleSignal P d st =
     (if \<not> truthy (sig_from d) \<or> sig_from d = Some (myId st) then (st, None)
      else
        (let fromId = or_empty (sig_from d) in
         case map_of (connections st) fromId of
           Some a \<Rightarrow> dispatch P a fromId d st
         | None \<Rightarrow>
             (case createConnection P st fromId (or_empty (sig_pub d)) of
                Inl e \<Rightarrow> (st, Some e)
              | Inr (st1, a) \<Rightarrow>
                  dispatch P a fromId d
                    (st1\<lparr>connections := AList.update fromId a (connections st1)\<rparr>))))"

text \<open>
  \<^verbatim>\<open>listenSignals\<close> clears the dedup set and registers the callback on the mailbox of
  \<open>myId\<close> in the current room. \<open>signalListener\<close> is that callback, for one delivery
  \<open>(data, key)\<close> of the medium; beside the state it tells whether \<^verbatim>\<open>handleSignal\<close>
  was called. A rejection of \<^verbatim>\<open>handleSignal\<close> is only logged.
\<close>

definition listenSignals :: "state \<Rightarrow> state" where
  "listenSignals st =
     (case room st of
        None \<Rightarrow> st
      | Some r \<Rightarrow> (resetSignals st)\<lparr>subscriptions := subscriptions st @ [(r, myId st)]\<rparr>)"

definition signalListener :: "platform \<Rightarrow> signal option \<Rightarrow> jsstring \<Rightarrow> state \<Rightarrow> state \<times> bool" where
  "signalListener P dt key st =
     (case dt of
        None \<Rightarrow> (st, False)
      | Some d \<Rightarrow>
          if \<not> truthy (sig_type d) \<or> key \<in> signalSeen st then (st, False)
          else (fst (handleSignal P d (st\<lparr>signalSeen := insert key (signalSeen st)\<rparr>)), True))"

text \<open>The click handler of the join button, registered in \<^verbatim>\<open>init\<close>.\<close>

definition joinRoom :: "state \<Rightarrow> state" where
  "joinRoom st =
     (let roomId = trim (el_roomId st) in
      if roomId = [] then alert EnterRoomId st
      else setStatus (InRoom roomId) (listenSignals (st\<lparr>room := Some roomId\<rparr>)))"

subsection \<open>Connecting and sending\<close>

text \<open>
  \<^verbatim>\<open>startConnection\<close> makes a session object and puts it in the map under the
  peer identifier, in the place of any object that was there. \<open>makeOffer\<close> is what
  it then does with the transport of that object, at position \<open>a\<close>.
\<close>

definition makeOffer :: "platform \<Rightarrow> nat \<Rightarrow> jsstring \<Rightarrow> state \<Rightarrow> state \<times> exn option" where
  "makeOffer P a pid st =
     (case peer_call P a CreateOffer st of
        Inl e \<Rightarrow> (st, Some e)
      | Inr st1 \<Rightarrow>
          (let offer = created_sdp P a st1 in
           case peer_call P a (SetLocalDescription (js ''offer'') offer) st1 of
             Inl e \<Rightarrow> (st1, Some e)
           | Inr st2 \<Rightarrow>
               (setStatus (OfferSent pid)
                  (sendSignal pid
                     \<lparr>sig_type = Some (js ''offer''), sig_from = None,
                      sig_sdp = Some offer, sig_pub = Some (myPubB64 st2),
                      sig_candidate = None\<rparr> st2), None)))"

definition startConnection :: "platform \<Rightarrow> state \<Rightarrow> state \<times> exn option" where
  "startConnection P st =
     (if room st = None then (st, Some NoRoomError)
      else
        (let pid = trim (el_peerId st); peerPubB64 = trim (el_peerPub st) in
         if pid = [] \<or> peerPubB64 = [] then (alert NeedIdAndPub st, None)
         else
           (case createConnection P st pid peerPubB64 of
              Inl e \<Rightarrow> (st, Some e)
            | Inr (st1, a) \<Rightarrow>
                makeOffer P a pid (st1\<lparr>connections := AList.update pid a (connections st1)\<rparr>))))"

text \<open>
  \<^verbatim>\<open>channel.send\<close> on the channel of the session object at position \<open>a\<close>; what is sent
  is the payload (the source sends its \<^verbatim>\<open>JSON.stringify\<close>).
\<close>

definition channel_send :: "nat \<Rightarrow> payload \<Rightarrow> state \<Rightarrow> state" where
  "channel_send a pl st =
     (case session st a of
        None \<Rightarrow> st
      | Some c \<Rightarrow>
          st\<lparr>sessions :=
               (sessions st)[a := c\<lparr>channel := (channel c)\<lparr>sent := sent (channel c) @ [pl]\<rparr>\<rparr>]\<rparr>)"

text \<open>
  \<^verbatim>\<open>sendMessage\<close>: \<^verbatim>\<open>find\<close> returns the first session, in the order of the map, whose
  channel is open; the key is looked at only afterwards. An exception of
  \<^verbatim>\<open>encryptMessage\<close> ends the function before anything is sent or shown.
\<close>

definition sendMessage ::
  "platform \<Rightarrow> random_source \<Rightarrow> state \<Rightarrow> state \<times> exn option \<times> random_source" where
  "sendMessage P rnd st =
     (let text = trim (el_messageInput st) in
      if text = [] then (st, None, rnd)
      else
        (case List.find (\<lambda>(a, c). readyState (channel c) = Open) (connection_values st) of
           None \<Rightarrow> (alert NoActiveChannel st, None, rnd)
         | Some (a, active) \<Rightarrow>
             (case aesKey active of
                None \<Rightarrow> (alert NoActiveChannel st, None, rnd)
              | Some key \<Rightarrow>
                  (case encryptMessage P rnd key text of
                     (Inl e, rnd') \<Rightarrow> (st, Some e, rnd')
                   | (Inr pl, rnd') \<Rightarrow>
                       ((addMessage (FromMe text) (channel_send a pl st))\<lparr>el_messageInput := []\<rparr>,
                        None, rnd')))))"

section \<open>Runs, and notions the properties are stated with\<close>

text \<open>
  Everything that can happen to the running application after \<^verbatim>\<open>init\<close>: the user
  types into a field or clicks a button, the medium delivers a signaling event, and the
  platform calls a callback of a session object, named by its position in the store:
  its transport finds a candidate, its data channel changes its state (\<^verbatim>\<open>onopen\<close> runs
  when it opens), the channel its peer offered opens, one of its channels delivers a
  message. A callback works with the \<^verbatim>\<open>peerId\<close> and the \<^verbatim>\<open>aesKey\<close> of its own session
  object, whatever the map refers to by then.
\<close>

datatype input_field = ImportSeedInput | RoomIdInput | PeerIdInput | PeerPubInput | MessageInput

datatype event =
    Typed input_field jsstring
  | CopyIdClicked
  | ExportClicked
  | RegenerateClicked random_source
  | ImportClicked
  | JoinClicked
  | StartClicked
  | SendClicked random_source
  | Delivered "signal option" jsstring
  | IceCandidate nat "jsstring option"
  | ChannelState nat ready_state
  | RemoteChannelOpen nat
  | ChannelMessage nat "payload option"

definition set_input :: "input_field \<Rightarrow> jsstring \<Rightarrow> state \<Rightarrow> state" where
  "set_input f v st =
     (case f of
        ImportSeedInput \<Rightarrow> st\<lparr>el_importSeedInput := v\<rparr>
      | RoomIdInput \<Rightarrow> st\<lparr>el_roomId := v\<rparr>
      | PeerIdInput \<Rightarrow> st\<lparr>el_peerId := v\<rparr>
      | PeerPubInput \<Rightarrow> st\<lparr>el_peerPub := v\<rparr>
      | MessageInput \<Rightarrow> st\<lparr>el_messageInput := v\<rparr>)"

definition set_readyState :: "nat \<Rightarrow> ready_state \<Rightarrow> state \<Rightarrow> state" where
  "set_readyState a r st =
     (case session st a of
        None \<Rightarrow> st
      | Some c \<Rightarrow> st\<lparr>sessions := (sessions st)[a := c\<lparr>channel := (channel c)\<lparr>readyState := r\<rparr>\<rparr>]\<rparr>)"

fun step :: "platform \<Rightarrow> event \<Rightarrow> state \<Rightarrow> state" where
  "step P (Typed f v) st = set_input f v st"
| "step P CopyIdClicked st = copyId st"
| "step P ExportClicked st = fst (exportSeed P st)"
| "step P (RegenerateClicked rnd) st = fst (regenerate P rnd st)"
| "step P ImportClicked st = importSeed P st"
| "step P JoinClicked st = joinRoom st"
| "step P StartClicked st = fst (startConnection P st)"
| "step P (SendClicked rnd) st = fst (sendMessage P rnd st)"
| "step P (Delivered dt key) st = fst (signalListener P dt key st)"
| "step P (IceCandidate a cand) st =
     (case session st a of
        None \<Rightarrow> st
      | Some c \<Rightarrow> onicecandidate (peerId c) cand st)"
| "step P (ChannelState a r) st =
     (case session st a of
        None \<Rightarrow> st
      | Some c \<Rightarrow> if r = Open then onopen (peerId c) (set_readyState a r st) else set_readyState a r st)"
| "step P (RemoteChannelOpen a) st =
     (case session st a of
        None \<Rightarrow> st
      | Some c \<Rightarrow> onopen (peerId c) st)"
| "step P (ChannelMessage a parsed) st =
     (case session st a of
        None \<Rightarrow> st
      | Some c \<Rightarrow> fst (onmessage P (peerId c) (aesKey c) parsed st))"

fun run :: "platform \<Rightarrow> event list \<Rightarrow> state \<Rightarrow> state" where
  "run P [] st = st"
| "run P (ev # evs) st = run P evs (step P ev st)"

text \<open>
  The dedup keys for which the callback of the subscription calls \<^verbatim>\<open>handleSignal\<close> in
  the course of a run, in the order of the calls.
\<close>

fun handled :: "platform \<Rightarrow> event list \<Rightarrow> state \<Rightarrow> jsstring list" where
  "handled P [] st = []"
| "handled P (Delivered dt key # evs) st =
     (if snd (signalListener P dt key st)
      then key # handled P evs (step P (Delivered dt key) st)
      else handled P evs (step P (Delivered dt key) st))"
| "handled P (ev # evs) st = handled P evs (step P ev st)"

text \<open>
  The session keys of a state: the peer identifiers of the map, each with the key of the
  session object it refers to.
\<close>

definition session_keys :: "state \<Rightarrow> (jsstring \<times> bytes option) list" where
  "session_keys st =
     concat (map (\<lambda>(k, a). case session st a of None \<Rightarrow> [] | Some c \<Rightarrow> [(k, aesKey c)])
       (connections st))"

text \<open>
  What a session looks like to \<^verbatim>\<open>sendMessage\<close>: is its channel open, has it a key,
  what was sent on it.
\<close>

definition session_view :: "state \<Rightarrow> (jsstring \<times> ready_state \<times> bool \<times> payload list) list" where
  "session_view st =
     concat (map (\<lambda>(k, a). case session st a of
                              None \<Rightarrow> []
                            | Some c \<Rightarrow> [(k, readyState (channel c), aesKey c \<noteq> None, sent (channel c))])
       (connections st))"

text \<open>A keypair is valid when its public key is the one the library derives from its private key.\<close>

definition valid_keypair :: "platform \<Rightarrow> keypair \<Rightarrow> bool" where
  "valid_keypair P kp = (getPublicKey P (priv kp) = Some (pub kp))"

text \<open>
  The contract of the key agreement of the library: between two keypairs it made, the
  shared secret is the same from either side.
\<close>

definition ecdh_symmetric :: "platform \<Rightarrow> bool" where
  "ecdh_symmetric P =
     (\<forall>a b pa pb. getPublicKey P a = Some pa \<longrightarrow> getPublicKey P b = Some pb \<longrightarrow>
        getSharedSecret P a pb = getSharedSecret P b pa)"

text \<open>
  Contracts of the authenticated cipher of the platform. It decrypts, under the same key
  and nonce, what it encrypted. It rejects, under any other key, what it encrypted (for
  AES-GCM an idealisation: a forgery has a probability that is negligible, not zero).
  Under one key, it encrypts one plaintext differently with different 96-bit nonces (which
  holds of AES-GCM: the tags differ when the rest is equal).
\<close>

definition aead_correct :: "platform \<Rightarrow> bool" where
  "aead_correct P =
     (\<forall>key nonce plain. aes_gcm_decrypt P key nonce (aes_gcm_encrypt P key nonce plain) = Some plain)"

definition wrong_key_rejected :: "platform \<Rightarrow> bool" where
  "wrong_key_rejected P =
     (\<forall>key key' nonce plain. key' \<noteq> key \<longrightarrow>
        aes_gcm_decrypt P key' nonce (aes_gcm_encrypt P key nonce plain) = None)"

definition nonce_sensitive :: "platform \<Rightarrow> bool" where
  "nonce_sensitive P =
     (\<forall>key nonce nonce' plain. length nonce = 12 \<and> length nonce' = 12 \<and> nonce \<noteq> nonce' \<longrightarrow>
        aes_gcm_encrypt P key nonce plain \<noteq> aes_gcm_encrypt P key nonce' plain)"

text \<open>
  A peer public key, as the base64 text the application receives, is malformed when
  \<^verbatim>\<open>fromB64\<close> or \<^verbatim>\<open>getSharedSecret\<close> throws on it.
\<close>

definition malformed_pub :: "platform \<Rightarrow> state \<Rightarrow> jsstring \<Rightarrow> bool" where
  "malformed_pub P st s =
     (case fromB64 s of
        None \<Rightarrow> True
      | Some pk \<Rightarrow> getSharedSecret P (priv (myKeyPair st)) pk = None)"

text \<open>The exception \<^verbatim>\<open>deriveAesKey\<close> throws on a malformed public key.\<close>

definition derive_error :: "jsstring \<Rightarrow> exn" where
  "derive_error s = (case fromB64 s of None \<Rightarrow> InvalidCharacterError | Some pk \<Rightarrow> CurveError)"



text \<open>
  The key a peer public key text stands for when a session is created, said with the
  functions of the platform: no key for the empty text (a missing \<open>pub\<close> is read as
  the empty text), and otherwise HKDF of the shared secret without its first byte, with
  the room as salt (\<open>maxkorotzi\<close> when the field of the room is empty); or the exception
  of a text that is not base64 or not a public key.
\<close>

definition room_salt :: "state \<Rightarrow> jsstring" where
  "room_salt st = (if trim (el_roomId st) = [] then js ''maxkorotzi'' else trim (el_roomId st))"

definition key_of_pub :: "platform \<Rightarrow> state \<Rightarrow> jsstring \<Rightarrow> exn + bytes option" where
  "key_of_pub P st pb =
     (if pb = [] then Inr None
      else
        (case fromB64 pb of
           None \<Rightarrow> Inl InvalidCharacterError
         | Some pk \<Rightarrow>
             (case getSharedSecret P (priv (myKeyPair st)) pk of
                None \<Rightarrow> Inl CurveError
              | Some shared \<Rightarrow>
                  Inr (Some (hkdf P (drop 1 shared) (utf8_encode (room_salt st))
                               (utf8_encode (js ''maxkorotzi-e2ee'')))))))"

subsection \<open>Notions used only in the proofs\<close>

text \<open>
  The six-bit values \<^verbatim>\<open>btoa\<close> writes for a byte sequence, and the padding that
  follows them.
\<close>

fun sextets :: "bytes \<Rightarrow> nat list" where
  "sextets [] = []"
| "sextets [a] = (let n = unat a in [n div 4, n mod 4 * 16])"
| "sextets [a, b] =
     (let n = unat a * 256 + unat b in [n div 1024, n div 16 mod 64, n mod 16 * 4])"
| "sextets (a # b # c # r) =
     (let n = unat a * 65536 + unat b * 256 + unat c in
      [n div 262144, n div 4096 mod 64, n div 64 mod 64, n mod 64] @ sextets r)"

fun padding :: "bytes \<Rightarrow> jsstring" where
  "padding [] = []"
| "padding [a] = [61, 61]"
| "padding [a, b] = [61]"
| "padding (a # b # c # r) = padding r"

text \<open>
  The code points \<^verbatim>\<open>TextEncoder\<close> reads from a string (a lone surrogate read as
  U+FFFD), and the range of Unicode scalar values.
\<close>

fun scalars :: "jsstring \<Rightarrow> nat list" where
  "scalars [] = []"
| "scalars [c] = [if high_surrogate c \<or> low_surrogate c then 0xFFFD else unat c]"
| "scalars (c # d # r) =
     (if high_surrogate c then
        (if low_surrogate d then pair_code_point c d # scalars r else 0xFFFD # scalars (d # r))
      else if low_surrogate c then 0xFFFD # scalars (d # r)
      else unat c # scalars (d # r))"

definition scalar_value :: "nat \<Rightarrow> bool" where
  "scalar_value n = (n < 0xD800 \<or> (0xE000 \<le> n \<and> n < 0x110000))"

subsection \<open>A small platform and state for the examples\<close>

text \<open>
  Diffie-Hellman in the integers modulo 251 stands in for the curve, concatenation for
  HKDF; the cipher writes, in front of the plaintext, the key in a form that shows where
  it ends, and the nonce; the transport accepts every call, and the engine a call with
  up to 65535 arguments.
\<close>

fun key_tag :: "bytes \<Rightarrow> bytes" where
  "key_tag [] = [0]"
| "key_tag (b # k) = 1 # b # key_tag k"

definition demo_platform :: platform where
  "demo_platform =
     \<lparr>spread_accepted = (\<lambda>n. n \<le> 65535),
      randomPrivateKey = (\<lambda>r. [r 0]),
      getPublicKey = (\<lambda>prv. if prv = [] then None
                             else Some [2, word_of_nat (6 ^ unat (hd prv) mod 251)]),
      getSharedSecret = (\<lambda>prv pk.
         case pk of
           [t, y] \<Rightarrow> if t = 2 \<and> prv \<noteq> [] then Some [2, word_of_nat (unat y ^ unat (hd prv) mod 251)]
                     else None
         | _ \<Rightarrow> None),
      hkdf = (\<lambda>ikm salt info. ikm @ salt @ info),
      aes_gcm_encrypt = (\<lambda>key nonce plain. key_tag key @ nonce @ plain),
      aes_gcm_decrypt = (\<lambda>key nonce cipher.
         if take (length (key_tag key @ nonce)) cipher = key_tag key @ nonce
         then Some (drop (length (key_tag key @ nonce)) cipher) else None),
      transport_accepts = (\<lambda>ops op. True),
      transport_sdp = (\<lambda>ops. js ''v=0'')\<rparr>"

text \<open>The same platform with an engine that accepts no more than 16 arguments.\<close>

definition small_engine :: platform where
  "small_engine = demo_platform\<lparr>spread_accepted := (\<lambda>n. n \<le> 16)\<rparr>"

text \<open>Two keypairs of this platform, with the identifiers \<open>Atg\<close> and \<open>AvY\<close>.\<close>

definition alice :: keypair where
  "alice = \<lparr>priv = [3], pub = [2, 216]\<rparr>"

definition bob :: keypair where
  "bob = \<lparr>priv = [5], pub = [2, 246]\<rparr>"

text \<open>The session key of these two in the room \<open>r1\<close>.\<close>

definition demo_key :: bytes where
  "demo_key = [126] @ utf8_encode (js ''r1'') @ utf8_encode (js ''maxkorotzi-e2ee'')"

text \<open>
  The state of the party holding \<open>alice\<close>, after it loaded the page and joined the room
  \<open>r1\<close>.
\<close>

definition demo_state :: state where
  "demo_state =
     \<lparr>room = Some (js ''r1''), myKeyPair = alice, myId = js ''Atg'', myPubB64 = js ''Atg='',
      sessions = [], connections = [], signalSeen = {},
      subscriptions = [(js ''r1'', js ''Atg'')],
      localStorage = [(storageKeys_priv, js ''Aw==''), (storageKeys_pub, js ''Atg='')],
      clipboard = [], el_myId = js ''Atg'', el_myPub = js ''Atg='', el_importSeedInput = [],
      el_roomId = js ''r1'', el_peerId = [], el_peerPub = [], el_status = InRoom (js ''r1''),
      el_messages = [], el_messageInput = [], published = [], alerts = []\<rparr>"

text \<open>
  Signaling events in the mailbox of that party. From the identifier of \<open>bob\<close>: an
  \<^verbatim>\<open>ice\<close> event, which carries no \<open>pub\<close>; one whose candidate is the empty string; an
  offer with the public key of \<open>bob\<close>; an offer with a public key that is not a point;
  an offer whose \<open>pub\<close> is the empty string. An offer from the party itself, and an
  \<^verbatim>\<open>ice\<close> event from a third identifier.
\<close>

definition demo_signal :: signal where
  "demo_signal =
     \<lparr>sig_type = None, sig_from = Some (js ''AvY''), sig_sdp = None, sig_pub = None,
      sig_candidate = None\<rparr>"

definition demo_ice :: signal where
  "demo_ice = demo_signal\<lparr>sig_type := Some (js ''ice''), sig_candidate := Some (js ''candidate:1'')\<rparr>"


definition demo_offer :: signal where
  "demo_offer =
     demo_signal\<lparr>sig_type := Some (js ''offer''), sig_sdp := Some (js ''v=0''),
       sig_pub := Some (js ''AvY='')\<rparr>"

definition demo_bad_offer :: signal where
  "demo_bad_offer = demo_signal\<lparr>sig_type := Some (js ''offer''), sig_pub := Some (js ''AAAA'')\<rparr>"

definition demo_empty_pub_offer :: signal where
  "demo_empty_pub_offer =
     demo_signal\<lparr>sig_type := Some (js ''offer''), sig_sdp := Some (js ''v=0''), sig_pub := Some []\<rparr>"

definition demo_self_offer :: signal where
  "demo_self_offer = demo_signal\<lparr>sig_type := Some (js ''offer''), sig_from := Some (js ''Atg'')\<rparr>"

definition demo_stranger_ice :: signal where
  "demo_stranger_ice = demo_ice\<lparr>sig_from := Some (js ''Zm9v'')\<rparr>"


text \<open>Events among which the medium delivers the same dedup key three times.\<close>

definition demo_deliveries :: "event list" where
  "demo_deliveries =
     [Delivered (Some demo_offer) (js ''k1''), Typed MessageInput (js ''hi''),
      Delivered (Some demo_offer) (js ''k1''), Delivered None (js ''k2''),
      ChannelState 0 Open, Delivered (Some demo_ice) (js ''k1'')]"



text \<open>
  A run that ends in a send with two open sessions: a third party sent an \<^verbatim>\<open>ice\<close>
  event first, then the user connected to \<open>bob\<close> with the public key of \<open>bob\<close>.
\<close>

definition demo_send_run :: "event list" where
  "demo_send_run =
     [Delivered (Some demo_stranger_ice) (js ''k1''),
      Typed PeerIdInput (js ''AvY''), Typed PeerPubInput (js ''AvY=''), StartClicked,
      ChannelState 0 Open, ChannelState 1 Open,
      Typed MessageInput (js ''hi''), SendClicked (\<lambda>i. 0)]"

text \<open>
  Two message texts: one that ends with a high surrogate that has no low surrogate after
  it, and one that starts with U+FEFF.
\<close>

definition demo_lone_text :: jsstring where
  "demo_lone_text = [0x68, 0x69, 0xD83D]"

definition demo_bom_text :: jsstring where
  "demo_bom_text = [0xFEFF, 0x68, 0x69]"

section \<open>Properties\<close>

subsection \<open>String constants\<close>

lemma js_eq_iff [simp]: "js a = js b \<longleftrightarrow> a = b"
proof -
  have "inj (\<lambda>c::char. (word_of_nat (of_char c) :: 16 word))"
  proof (rule injI)
    fix x y :: char
    assume "(word_of_nat (of_char x) :: 16 word) = word_of_nat (of_char y)"
    then have "unat (word_of_nat (of_char x) :: 16 word) = unat (word_of_nat (of_char y) :: 16 word)"
      by simp
    moreover have "(of_char x :: nat) < 65536" "(of_char y :: nat) < 65536"
      using nat_of_char_less_256 [of x] nat_of_char_less_256 [of y] by linarith+
    ultimately show "x = y"
      by (simp add: unat_of_nat)
  qed
  then show ?thesis by (simp add: js_def inj_map_eq_map)
qed

lemma js_nonempty [simp]: "js s = [] \<longleftrightarrow> s = []"
  by (simp add: js_def)

subsection \<open>Base64 decodes what it encoded\<close>

lemma unat_byte_less: "unat (a :: 8 word) < 256"
  using unsigned_less [of a, where ?'a = nat] by simp

lemma unat_word16: "n < 65536 \<Longrightarrow> unat (word_of_nat n :: 16 word) = n"
  by (simp only: unat_of_nat) simp

lemma unat_word8: "n < 256 \<Longrightarrow> unat (word_of_nat n :: 8 word) = n"
  by (simp only: unat_of_nat) simp

lemma b64val_b64char: "i < 64 \<Longrightarrow> b64val (b64char i) = Some i"
proof -
  assume i: "i < 64"
  consider "i < 26" | "26 \<le> i" "i < 52" | "52 \<le> i" "i < 62" | "i = 62" | "i = 63"
    using i by linarith
  then show ?thesis
  proof cases
    case 1
    then have "unat (b64char i) = 65 + i" by (simp add: b64char_def unat_word16 del: of_nat_add)
    with 1 show ?thesis by (simp add: b64val_def Let_def)
  next
    case 2
    then have "unat (b64char i) = 71 + i" by (simp add: b64char_def unat_word16 del: of_nat_add)
    with 2 show ?thesis by (simp add: b64val_def Let_def)
  next
    case 3
    then have "unat (b64char i) = i - 4" by (simp add: b64char_def unat_word16 del: of_nat_diff)
    with 3 show ?thesis by (auto simp: b64val_def Let_def)
  next
    case 4
    then show ?thesis by (simp add: b64char_def b64val_def)
  next
    case 5
    then show ?thesis by (simp add: b64char_def b64val_def)
  qed
qed

lemma b64char_not_pad: "i < 64 \<Longrightarrow> b64char i \<noteq> 61"
proof
  assume "i < 64" "b64char i = 61"
  with b64val_b64char [of i] have "b64val 61 = Some i" by simp
  then show False by (simp add: b64val_def)
qed

lemma b64char_not_space: "i < 64 \<Longrightarrow> \<not> ascii_whitespace (b64char i)"
proof
  assume "i < 64" "ascii_whitespace (b64char i)"
  with b64val_b64char [of i] obtain c where "ascii_whitespace c" "b64val c = Some i" by blast
  then show False by (auto simp: b64val_def ascii_whitespace_def)
qed

lemma those_b64val: "(\<And>v. v \<in> set vs \<Longrightarrow> v < 64) \<Longrightarrow> those (map b64val (map b64char vs)) = Some vs"
  by (induction vs) (simp_all add: b64val_b64char)

lemma div_base: "r < k \<Longrightarrow> (q * k + r) div k = (q::nat)"
  by simp

lemma mod_base: "r < k \<Longrightarrow> (q * k + r) mod k = (r::nat)"
  by simp

lemma sextet_join: "n div (k * 64) * 64 + n div k mod 64 = n div (k::nat)"
proof -
  have "n div (k * 64) = n div k div 64" by (simp add: div_mult2_eq)
  then show ?thesis by simp
qed

lemma decode_one:
  fixes n :: nat
  shows "(n div 4 * 64 + n mod 4 * 16) div 16 = n"
proof -
  define x y where "x = n div 4" and "y = n mod 4"
  have "x * 4 + y = n" by (simp add: x_def y_def)
  then have "x * 64 + y * 16 = n * 16" by linarith
  then show ?thesis by (simp add: x_def y_def)
qed

lemma decode_two:
  fixes n :: nat
  shows "(n div 1024 * 64 + n div 16 mod 64) * 64 + n mod 16 * 4 = n * 4"
proof -
  define x y where "x = n div 16" and "y = n mod 16"
  have "n div 1024 * 64 + n div 16 mod 64 = x"
    using sextet_join [of n 16] by (simp add: x_def)
  moreover have "x * 16 + y = n" by (simp add: x_def y_def)
  then have "x * 64 + y * 4 = n * 4" by linarith
  ultimately show ?thesis by (simp add: y_def)
qed

lemma decode_three:
  fixes n :: nat
  shows "((n div 262144 * 64 + n div 4096 mod 64) * 64 + n div 64 mod 64) * 64 + n mod 64 = n"
proof -
  have "n div 262144 * 64 + n div 4096 mod 64 = n div 4096"
    using sextet_join [of n 4096] by simp
  moreover have "n div 4096 * 64 + n div 64 mod 64 = n div 64"
    using sextet_join [of n 64] by simp
  ultimately show ?thesis by simp
qed

lemma decode_sextets_sextets: "decode_sextets (sextets bs) = bs"
proof (induction bs rule: sextets.induct)
  case 1
  then show ?case by simp
next
  case (2 a)
  then show ?case by (simp add: Let_def decode_one)
next
  case (3 a b)
  define n where "n = unat a * 256 + unat b"
  have "n * 4 div 1024 = n div 256" by simp
  also have "\<dots> = unat a"
    unfolding n_def using unat_byte_less [of b] by (rule div_base)
  finally have 1: "n * 4 div 1024 = unat a" .
  have "n * 4 div 4 mod 256 = n mod 256" by simp
  also have "\<dots> = unat b"
    unfolding n_def using unat_byte_less [of b] by (rule mod_base)
  finally have 2: "n * 4 div 4 mod 256 = unat b" .
  show ?case
    by (simp only: sextets.simps decode_sextets.simps Let_def n_def [symmetric] decode_two 1 2)
       simp
next
  case (4 a b c r)
  define n where "n = unat a * 65536 + unat b * 256 + unat c"
  have r: "unat b * 256 + unat c < 65536"
    using unat_byte_less [of b] unat_byte_less [of c] by linarith
  have "n = unat a * 65536 + (unat b * 256 + unat c)" by (simp add: n_def)
  then have 1: "n div 65536 = unat a" using r by (simp only: div_base)
  have n2: "n = (unat a * 256 + unat b) * 256 + unat c" by (simp add: n_def)
  then have 3: "n mod 256 = unat c" using unat_byte_less [of c] by (simp only: mod_base)
  from n2 have "n div 256 = unat a * 256 + unat b"
    using unat_byte_less [of c] by (simp only: div_base)
  then have 2: "n div 256 mod 256 = unat b"
    using unat_byte_less [of b] by (simp only: mod_base)
  have "decode_sextets (sextets (a # b # c # r)) =
        word_of_nat (n div 65536) # word_of_nat (n div 256 mod 256) # word_of_nat (n mod 256) #
        decode_sextets (sextets r)"
    by (simp only: sextets.simps decode_sextets.simps Let_def n_def [symmetric] decode_three
          append.simps)
  with 1 2 3 4 show ?case by simp
qed

lemma b64_encode_shape: "b64_encode bs = map b64char (sextets bs) @ padding bs"
  by (induction bs rule: b64_encode.induct) (simp_all add: Let_def)

lemma sextets_less: "v \<in> set (sextets bs) \<Longrightarrow> v < 64"
proof (induction bs arbitrary: v rule: sextets.induct)
  case 1
  then show ?case by simp
next
  case (2 a)
  with unat_byte_less [of a] show ?case by (auto simp: Let_def)
next
  case (3 a b)
  with unat_byte_less [of a] unat_byte_less [of b] show ?case by (auto simp: Let_def)
next
  case (4 a b c r)
  with unat_byte_less [of a] unat_byte_less [of b] unat_byte_less [of c] show ?case
    by (auto simp: Let_def)
qed

lemma strip_padding_append:
  assumes "2 \<le> length ys"
  shows "strip_padding (xs @ ys) = xs @ strip_padding ys"
proof -
  from assms obtain c1 c2 t where r: "rev ys = c1 # c2 # t"
    by (cases "rev ys"; cases "tl (rev ys)") (auto simp: Suc_le_eq dest: arg_cong [where f = length])
  then have ys: "ys = rev t @ [c2, c1]"
    by (metis append.assoc append_Cons append_Nil rev.simps(2) rev_rev_ident)
  show ?thesis
    by (simp add: strip_padding_def ys)
qed

lemma strip_padding_last: "x \<noteq> 61 \<Longrightarrow> strip_padding (xs @ [x]) = xs @ [x]"
  by (cases "rev xs") (simp_all add: strip_padding_def)

lemma length_b64_encode: "length (b64_encode bs) mod 4 = 0"
  by (induction bs rule: b64_encode.induct) (simp_all add: Let_def)

lemma length_sextets: "length (sextets bs) mod 4 \<noteq> 1"
  by (induction bs rule: sextets.induct) (simp_all add: Let_def)

lemma b64_encode_empty: "b64_encode bs = [] \<longleftrightarrow> bs = []"
  by (cases bs rule: b64_encode.cases) (simp_all add: Let_def)

lemma strip_padding_b64_encode: "strip_padding (b64_encode bs) = map b64char (sextets bs)"
proof (induction bs rule: b64_encode.induct)
  case 1
  then show ?case by (simp add: strip_padding_def)
next
  case (2 a)
  then show ?case by (simp add: strip_padding_def Let_def)
next
  case (3 a b)
  have "unat a * 256 + unat b < 65536"
    using unat_byte_less [of a] unat_byte_less [of b] by linarith
  then have "b64char ((unat a * 256 + unat b) mod 16 * 4) \<noteq> 61"
    by (intro b64char_not_pad) simp
  then show ?case by (simp add: strip_padding_def Let_def)
next
  case (4 a b c r)
  define n where "n = unat a * 65536 + unat b * 256 + unat c"
  define four where "four = [b64char (n div 262144), b64char (n div 4096 mod 64),
       b64char (n div 64 mod 64), b64char (n mod 64)]"
  have enc: "b64_encode (a # b # c # r) = four @ b64_encode r"
    and sx: "map b64char (sextets (a # b # c # r)) = four @ map b64char (sextets r)"
    by (simp_all add: Let_def n_def four_def)
  show ?case
  proof (cases "r = []")
    case True
    have "b64char (n mod 64) \<noteq> 61" by (intro b64char_not_pad) simp
    then have "strip_padding ([b64char (n div 262144), b64char (n div 4096 mod 64),
       b64char (n div 64 mod 64)] @ [b64char (n mod 64)]) =
       [b64char (n div 262144), b64char (n div 4096 mod 64), b64char (n div 64 mod 64)] @
       [b64char (n mod 64)]"
      by (rule strip_padding_last)
    then have "strip_padding four = four" by (simp add: four_def)
    with True show ?thesis unfolding enc sx by simp
  next
    case False
    then have "b64_encode r \<noteq> []" by (simp add: b64_encode_empty)
    with length_b64_encode [of r] have "2 \<le> length (b64_encode r)"
      by (cases "b64_encode r"; cases "tl (b64_encode r)") auto
    then show ?thesis
      using 4 by (simp only: enc sx strip_padding_append)
  qed
qed

lemma no_space_b64_encode: "filter (\<lambda>c. \<not> ascii_whitespace c) (b64_encode bs) = b64_encode bs"
proof -
  have "\<not> ascii_whitespace c" if "c \<in> set (b64_encode bs)" for c
  proof -
    from that consider v where "v \<in> set (sextets bs)" "c = b64char v" | "c \<in> set (padding bs)"
      by (auto simp: b64_encode_shape)
    then show ?thesis
    proof cases
      case 1
      then show ?thesis by (simp add: b64char_not_space sextets_less)
    next
      case 2
      then have "c = 61" by (induction bs rule: padding.induct) auto
      then show ?thesis by (simp add: ascii_whitespace_def)
    qed
  qed
  then show ?thesis by (simp add: filter_id_conv)
qed

lemma atob_b64_encode: "atob (b64_encode bs) = Some (map ucast bs)"
proof -
  have "those (map b64val (map b64char (sextets bs))) = Some (sextets bs)"
    by (rule those_b64val) (rule sextets_less)
  then show ?thesis
    using length_sextets [of bs]
    by (simp add: atob_def no_space_b64_encode length_b64_encode strip_padding_b64_encode
          decode_sextets_sextets)
qed

lemma ucast_byte: "(ucast (ucast (w :: 8 word) :: 16 word) :: 8 word) = w"
  by (simp add: ucast_up_ucast_id is_up)

lemma unat_ucast_byte: "unat (ucast (w :: 8 word) :: 16 word) = unat w"
proof -
  have "unat w < 65536" using unat_byte_less [of w] by linarith
  then show ?thesis by (simp add: unsigned_ucast_eq take_bit_eq_mod)
qed

lemma ucast_byte_le: "(ucast (w :: 8 word) :: 16 word) \<le> 255"
  using unat_byte_less [of w] by (simp add: word_le_nat_alt unat_ucast_byte)

text \<open>\<^verbatim>\<open>btoa\<close> of the binary string of a byte sequence never throws.\<close>

lemma btoa_fromCharCode: "btoa (fromCharCode bs) = Some (b64_encode bs)"
  by (simp add: btoa_def fromCharCode_def list_all_iff ucast_byte_le ucast_byte comp_def)

subsection \<open>\<^verbatim>\<open>TextDecoder\<close> decodes what \<^verbatim>\<open>TextEncoder\<close> encoded\<close>

lemma dec_ascii: "unat w \<le> 0x7F \<Longrightarrow> utf8_decoder 0 0 0 0x80 0xBF (w # bs) = unat w # utf8_decoder 0 0 0 0x80 0xBF bs"
  by simp

lemma dec_lead2:
  "0xC2 \<le> unat w \<Longrightarrow> unat w \<le> 0xDF \<Longrightarrow>
   utf8_decoder 0 0 0 0x80 0xBF (w # bs) = utf8_decoder (unat w mod 32) 0 1 0x80 0xBF bs"
  by simp

lemma dec_lead3:
  "0xE0 \<le> unat w \<Longrightarrow> unat w \<le> 0xEF \<Longrightarrow>
   utf8_decoder 0 0 0 0x80 0xBF (w # bs) =
     utf8_decoder (unat w mod 16) 0 2 (if unat w = 0xE0 then 0xA0 else 0x80)
       (if unat w = 0xED then 0x9F else 0xBF) bs"
  by simp

lemma dec_lead4:
  "0xF0 \<le> unat w \<Longrightarrow> unat w \<le> 0xF4 \<Longrightarrow>
   utf8_decoder 0 0 0 0x80 0xBF (w # bs) =
     utf8_decoder (unat w mod 8) 0 3 (if unat w = 0xF0 then 0x90 else 0x80)
       (if unat w = 0xF4 then 0x8F else 0xBF) bs"
  by simp

lemma dec_cont:
  "needed \<noteq> 0 \<Longrightarrow> lower \<le> unat w \<Longrightarrow> unat w \<le> upper \<Longrightarrow> seen + 1 \<noteq> needed \<Longrightarrow>
   utf8_decoder cp seen needed lower upper (w # bs) =
     utf8_decoder (cp * 64 + unat w mod 64) (seen + 1) needed 0x80 0xBF bs"
  by simp

lemma dec_last:
  "needed \<noteq> 0 \<Longrightarrow> lower \<le> unat w \<Longrightarrow> unat w \<le> upper \<Longrightarrow> seen + 1 = needed \<Longrightarrow>
   utf8_decoder cp seen needed lower upper (w # bs) = (cp * 64 + unat w mod 64) # utf8_decoder 0 0 0 0x80 0xBF bs"
  by simp

declare utf8_decoder.simps(2) [simp del]

lemma decode_1:
  assumes "n < 0x80"
  shows "utf8_decoder 0 0 0 0x80 0xBF (utf8_bytes n @ rest) = n # utf8_decoder 0 0 0 0x80 0xBF rest"
proof -
  have u: "unat (word_of_nat n :: 8 word) = n" using assms by (simp add: unat_word8)
  have "utf8_bytes n = [word_of_nat n]" using assms by (simp add: utf8_bytes_def)
  moreover have "utf8_decoder 0 0 0 0x80 0xBF ((word_of_nat n :: 8 word) # rest) =
      unat (word_of_nat n :: 8 word) # utf8_decoder 0 0 0 0x80 0xBF rest"
    by (rule dec_ascii) (use u assms in simp)
  ultimately show ?thesis by (simp add: u)
qed

lemma decode_2:
  assumes "0x80 \<le> n" and "n < 0x800"
  shows "utf8_decoder 0 0 0 0x80 0xBF (utf8_bytes n @ rest) = n # utf8_decoder 0 0 0 0x80 0xBF rest"
proof -
  define d1 d0 where "d1 = n div 64" and "d0 = n mod 64"
  have n: "n = d1 * 64 + d0" by (simp add: d1_def d0_def)
  have d0: "d0 < 64" by (simp add: d0_def)
  have d1: "2 \<le> d1" "d1 < 32" using assms n d0 by linarith+
  define w1 w0 :: "8 word" where "w1 = word_of_nat (0xC0 + d1)" and "w0 = word_of_nat (0x80 + d0)"
  have u1: "unat w1 = 0xC0 + d1" unfolding w1_def using d1 by (intro unat_word8) simp
  have u0: "unat w0 = 0x80 + d0" unfolding w0_def using d0 by (intro unat_word8) simp
  have b: "utf8_bytes n = [w1, w0]"
    using assms by (simp add: utf8_bytes_def w1_def w0_def d1_def d0_def del: of_nat_add)
  have m1: "unat w1 mod 32 = d1" using mod_base [of d1 32 6] d1 by (simp add: u1)
  have m0: "unat w0 mod 64 = d0" using mod_base [of d0 64 2] d0 by (simp add: u0)
  have "utf8_decoder 0 0 0 0x80 0xBF (w1 # w0 # rest) =
        utf8_decoder (unat w1 mod 32) 0 1 0x80 0xBF (w0 # rest)"
    by (rule dec_lead2) (use u1 d1 in simp_all)
  also have "\<dots> = (unat w1 mod 32 * 64 + unat w0 mod 64) # utf8_decoder 0 0 0 0x80 0xBF rest"
    by (rule dec_last) (use u0 d0 in simp_all)
  finally have "utf8_decoder 0 0 0 0x80 0xBF (w1 # w0 # rest) =
      (unat w1 mod 32 * 64 + unat w0 mod 64) # utf8_decoder 0 0 0 0x80 0xBF rest" .
  moreover have "unat w1 mod 32 * 64 + unat w0 mod 64 = n"
    by (simp only: m1 m0 n [symmetric])
  ultimately show ?thesis unfolding b by simp
qed

lemma decode_3:
  assumes "0x800 \<le> n" and "n < 0x10000" and "n < 0xD800 \<or> 0xE000 \<le> n"
  shows "utf8_decoder 0 0 0 0x80 0xBF (utf8_bytes n @ rest) = n # utf8_decoder 0 0 0 0x80 0xBF rest"
proof -
  define d2 d1 d0 where "d2 = n div 4096" and "d1 = n div 64 mod 64" and "d0 = n mod 64"
  have "d2 * 64 + d1 = n div 64"
    using sextet_join [of n 64] by (simp add: d2_def d1_def)
  then have n: "n = (d2 * 64 + d1) * 64 + d0" by (simp add: d0_def)
  then have nl: "n = d2 * 4096 + d1 * 64 + d0" by simp
  have d0: "d0 < 64" by (simp add: d0_def)
  have d1: "d1 < 64" by (simp add: d1_def)
  have d2: "d2 < 16" using assms(2) nl by linarith
  have lo: "d2 = 0 \<longrightarrow> 32 \<le> d1" using assms(1) nl d0 by auto
  have hi: "d2 = 13 \<longrightarrow> d1 < 32" using assms(3) nl d0 d1 by auto
  define w2 w1 w0 :: "8 word" where "w2 = word_of_nat (0xE0 + d2)"
    and "w1 = word_of_nat (0x80 + d1)" and "w0 = word_of_nat (0x80 + d0)"
  have u2: "unat w2 = 0xE0 + d2" unfolding w2_def using d2 by (intro unat_word8) simp
  have u1: "unat w1 = 0x80 + d1" unfolding w1_def using d1 by (intro unat_word8) simp
  have u0: "unat w0 = 0x80 + d0" unfolding w0_def using d0 by (intro unat_word8) simp
  have b: "utf8_bytes n = [w2, w1, w0]"
    using assms
    by (simp add: utf8_bytes_def w2_def w1_def w0_def d2_def d1_def d0_def del: of_nat_add)
  have m2: "unat w2 mod 16 = d2" using mod_base [of d2 16 14] d2 by (simp add: u2)
  have m1: "unat w1 mod 64 = d1" using mod_base [of d1 64 2] d1 by (simp add: u1)
  have m0: "unat w0 mod 64 = d0" using mod_base [of d0 64 2] d0 by (simp add: u0)
  have "utf8_decoder 0 0 0 0x80 0xBF (w2 # w1 # w0 # rest) =
        utf8_decoder (unat w2 mod 16) 0 2 (if unat w2 = 0xE0 then 0xA0 else 0x80)
          (if unat w2 = 0xED then 0x9F else 0xBF) (w1 # w0 # rest)"
    by (rule dec_lead3) (use u2 d2 in simp_all)
  also have "\<dots> = utf8_decoder (unat w2 mod 16 * 64 + unat w1 mod 64) (0 + 1) 2 0x80 0xBF (w0 # rest)"
    by (rule dec_cont) (use u2 u1 d1 lo hi in auto)
  also have "\<dots> = ((unat w2 mod 16 * 64 + unat w1 mod 64) * 64 + unat w0 mod 64) #
        utf8_decoder 0 0 0 0x80 0xBF rest"
    by (rule dec_last) (use u0 d0 in simp_all)
  finally have "utf8_decoder 0 0 0 0x80 0xBF (w2 # w1 # w0 # rest) =
      ((unat w2 mod 16 * 64 + unat w1 mod 64) * 64 + unat w0 mod 64) #
        utf8_decoder 0 0 0 0x80 0xBF rest" .
  moreover have "(unat w2 mod 16 * 64 + unat w1 mod 64) * 64 + unat w0 mod 64 = n"
    by (simp only: m2 m1 m0 n [symmetric])
  ultimately show ?thesis unfolding b by simp
qed

lemma decode_4:
  assumes "0x10000 \<le> n" and "n < 0x110000"
  shows "utf8_decoder 0 0 0 0x80 0xBF (utf8_bytes n @ rest) = n # utf8_decoder 0 0 0 0x80 0xBF rest"
proof -
  define d3 d2 d1 d0 where "d3 = n div 262144" and "d2 = n div 4096 mod 64"
    and "d1 = n div 64 mod 64" and "d0 = n mod 64"
  have "d3 * 64 + d2 = n div 4096"
    using sextet_join [of n 4096] by (simp add: d3_def d2_def)
  moreover have "n div 4096 * 64 + d1 = n div 64"
    using sextet_join [of n 64] by (simp add: d1_def)
  ultimately have n: "n = ((d3 * 64 + d2) * 64 + d1) * 64 + d0" by (simp add: d0_def)
  then have nl: "n = d3 * 262144 + d2 * 4096 + d1 * 64 + d0" by simp
  have d0: "d0 < 64" by (simp add: d0_def)
  have d1: "d1 < 64" by (simp add: d1_def)
  have d2: "d2 < 64" by (simp add: d2_def)
  have d3: "d3 < 5" using assms(2) nl by linarith
  have lo: "d3 = 0 \<longrightarrow> 16 \<le> d2" using assms(1) nl d0 d1 by auto
  have hi: "d3 = 4 \<longrightarrow> d2 < 16" using assms(2) nl by auto
  define w3 w2 w1 w0 :: "8 word" where "w3 = word_of_nat (0xF0 + d3)"
    and "w2 = word_of_nat (0x80 + d2)"
    and "w1 = word_of_nat (0x80 + d1)" and "w0 = word_of_nat (0x80 + d0)"
  have u3: "unat w3 = 0xF0 + d3" unfolding w3_def using d3 by (intro unat_word8) simp
  have u2: "unat w2 = 0x80 + d2" unfolding w2_def using d2 by (intro unat_word8) simp
  have u1: "unat w1 = 0x80 + d1" unfolding w1_def using d1 by (intro unat_word8) simp
  have u0: "unat w0 = 0x80 + d0" unfolding w0_def using d0 by (intro unat_word8) simp
  have b: "utf8_bytes n = [w3, w2, w1, w0]"
    using assms
    by (simp add: utf8_bytes_def w3_def w2_def w1_def w0_def d3_def d2_def d1_def d0_def
          del: of_nat_add)
  have m3: "unat w3 mod 8 = d3" using mod_base [of d3 8 30] d3 by (simp add: u3)
  have m2: "unat w2 mod 64 = d2" using mod_base [of d2 64 2] d2 by (simp add: u2)
  have m1: "unat w1 mod 64 = d1" using mod_base [of d1 64 2] d1 by (simp add: u1)
  have m0: "unat w0 mod 64 = d0" using mod_base [of d0 64 2] d0 by (simp add: u0)
  have "utf8_decoder 0 0 0 0x80 0xBF (w3 # w2 # w1 # w0 # rest) =
        utf8_decoder (unat w3 mod 8) 0 3 (if unat w3 = 0xF0 then 0x90 else 0x80)
          (if unat w3 = 0xF4 then 0x8F else 0xBF) (w2 # w1 # w0 # rest)"
    by (rule dec_lead4) (use u3 d3 in simp_all)
  also have "\<dots> = utf8_decoder (unat w3 mod 8 * 64 + unat w2 mod 64) (0 + 1) 3 0x80 0xBF
        (w1 # w0 # rest)"
    by (rule dec_cont) (use u3 u2 d2 lo hi in auto)
  also have "\<dots> = utf8_decoder ((unat w3 mod 8 * 64 + unat w2 mod 64) * 64 + unat w1 mod 64)
        (0 + 1 + 1) 3 0x80 0xBF (w0 # rest)"
    by (rule dec_cont) (use u1 d1 in simp_all)
  also have "\<dots> = (((unat w3 mod 8 * 64 + unat w2 mod 64) * 64 + unat w1 mod 64) * 64 +
        unat w0 mod 64) # utf8_decoder 0 0 0 0x80 0xBF rest"
    by (rule dec_last) (use u0 d0 in simp_all)
  finally have "utf8_decoder 0 0 0 0x80 0xBF (w3 # w2 # w1 # w0 # rest) =
      (((unat w3 mod 8 * 64 + unat w2 mod 64) * 64 + unat w1 mod 64) * 64 + unat w0 mod 64) #
        utf8_decoder 0 0 0 0x80 0xBF rest" .
  moreover have "((unat w3 mod 8 * 64 + unat w2 mod 64) * 64 + unat w1 mod 64) * 64 +
      unat w0 mod 64 = n"
    by (simp only: m3 m2 m1 m0 n [symmetric])
  ultimately show ?thesis unfolding b by simp
qed

lemma decode_utf8_bytes:
  "scalar_value n \<Longrightarrow>
   utf8_decoder 0 0 0 0x80 0xBF (utf8_bytes n @ rest) = n # utf8_decoder 0 0 0 0x80 0xBF rest"
  using decode_1 [of n rest] decode_2 [of n rest] decode_3 [of n rest] decode_4 [of n rest]
  by (cases "n < 0x80"; cases "n < 0x800"; cases "n < 0x10000") (auto simp: scalar_value_def)

lemma utf8_encode_scalars: "utf8_encode s = concat (map utf8_bytes (scalars s))"
  by (induction s rule: utf8_encode.induct) simp_all

lemma unat_unit_less: "unat (c :: 16 word) < 65536"
  using unsigned_less [of c, where ?'a = nat] by simp

lemma high_surrogate_nat: "high_surrogate c \<longleftrightarrow> 0xD800 \<le> unat c \<and> unat c \<le> 0xDBFF"
  by (simp add: high_surrogate_def word_le_nat_alt)

lemma low_surrogate_nat: "low_surrogate c \<longleftrightarrow> 0xDC00 \<le> unat c \<and> unat c \<le> 0xDFFF"
  by (simp add: low_surrogate_def word_le_nat_alt)

lemma scalar_value_unit:
  "\<not> high_surrogate c \<Longrightarrow> \<not> low_surrogate c \<Longrightarrow> scalar_value (unat c)"
  using unat_unit_less [of c]
  by (auto simp: scalar_value_def high_surrogate_nat low_surrogate_nat)

lemma scalar_value_pair:
  "high_surrogate c \<Longrightarrow> low_surrogate d \<Longrightarrow> scalar_value (pair_code_point c d)"
  by (auto simp: scalar_value_def high_surrogate_nat low_surrogate_nat pair_code_point_def)

lemma scalar_value_replacement: "scalar_value 0xFFFD"
  by (simp add: scalar_value_def)

lemma scalars_valid: "n \<in> set (scalars s) \<Longrightarrow> scalar_value n"
  by (induction s arbitrary: n rule: scalars.induct)
     (auto simp: scalar_value_unit scalar_value_pair scalar_value_replacement split: if_splits)

lemma decoder_concat:
  "(\<And>n. n \<in> set ns \<Longrightarrow> scalar_value n) \<Longrightarrow>
   utf8_decoder 0 0 0 0x80 0xBF (concat (map utf8_bytes ns)) = ns"
  by (induction ns) (simp_all add: decode_utf8_bytes)

lemma decoder_encode: "utf8_decoder 0 0 0 0x80 0xBF (utf8_encode s) = scalars s"
  by (simp add: utf8_encode_scalars decoder_concat scalars_valid)

lemma utf16_units_unit: "utf16_units (unat (c :: 16 word)) = [c]"
  using unat_unit_less [of c] by (simp add: utf16_units_def)

lemma utf16_units_pair:
  assumes "high_surrogate c" and "low_surrogate d"
  shows "utf16_units (pair_code_point c d) = [c, d]"
proof -
  define h l where "h = unat c - 0xD800" and "l = unat d - 0xDC00"
  have h: "unat c = 0xD800 + h" and l: "unat d = 0xDC00 + l" and l4: "l < 0x400"
    using assms by (auto simp: h_def l_def high_surrogate_nat low_surrogate_nat)
  have p: "pair_code_point c d - 0x10000 = h * 0x400 + l"
    by (simp add: pair_code_point_def h_def l_def)
  have "(h * 0x400 + l) div 0x400 = h" "(h * 0x400 + l) mod 0x400 = l"
    using l4 by simp_all
  then have "utf16_units (pair_code_point c d) =
      [word_of_nat (0xD800 + h), word_of_nat (0xDC00 + l)]"
    by (simp add: utf16_units_def p) (simp add: pair_code_point_def)
  also have "\<dots> = [c, d]"
    by (simp only: h [symmetric] l [symmetric]) simp
  finally show ?thesis .
qed

lemma units_scalars: "well_formed s \<Longrightarrow> concat (map utf16_units (scalars s)) = s"
proof (induction s rule: scalars.induct)
  case 1
  then show ?case by simp
next
  case (2 c)
  then show ?case by (simp add: utf16_units_unit)
next
  case (3 c d r)
  show ?case
  proof (cases "high_surrogate c")
    case True
    with 3 show ?thesis by (simp add: utf16_units_pair)
  next
    case False
    with 3 show ?thesis by (simp add: utf16_units_unit)
  qed
qed

lemma unat_not_bom: "c \<noteq> 0xFEFF \<Longrightarrow> unat (c :: 16 word) \<noteq> 0xFEFF"
proof
  assume "c \<noteq> 0xFEFF" and "unat c = 0xFEFF"
  then have "word_of_nat (unat c) = (word_of_nat 0xFEFF :: 16 word)" by simp
  then have "c = 0xFEFF" by simp
  with \<open>c \<noteq> 0xFEFF\<close> show False by simp
qed

lemma strip_bom_scalars:
  assumes "well_formed s" and "s = [] \<or> hd s \<noteq> 0xFEFF"
  shows "strip_bom (scalars s) = scalars s"
proof (cases s rule: scalars.cases)
  case 1
  then show ?thesis by (simp add: strip_bom_def)
next
  case (2 c)
  with assms have "unat c \<noteq> 0xFEFF" by (simp add: unat_not_bom)
  with 2 assms show ?thesis by (simp add: strip_bom_def)
next
  case (3 c d r)
  with assms have c: "unat c \<noteq> 0xFEFF" by (simp add: unat_not_bom)
  have p: "pair_code_point c d \<noteq> 0xFEFF" by (simp add: pair_code_point_def)
  show ?thesis
  proof (cases "high_surrogate c")
    case True
    with 3 assms p show ?thesis by (simp add: strip_bom_def)
  next
    case False
    with 3 assms c show ?thesis by (simp add: strip_bom_def)
  qed
qed

lemma utf8_roundtrip:
  "well_formed s \<Longrightarrow> s = [] \<or> hd s \<noteq> 0xFEFF \<Longrightarrow> utf8_decode (utf8_encode s) = s"
  by (simp add: utf8_decode_def decoder_encode strip_bom_scalars units_scalars)

lemma utf8_decode_encode:
  "utf8_decode (utf8_encode s) = concat (map utf16_units (strip_bom (scalars s)))"
  by (simp add: utf8_decode_def decoder_encode)

text \<open>\<^verbatim>\<open>trim\<close> removes a leading U+FEFF, which is white space.\<close>

lemma trim_no_bom: "trim s = [] \<or> hd (trim s) \<noteq> 0xFEFF"
proof (cases "trim s = []")
  case True
  then show ?thesis by simp
next
  case False
  define t where "t = dropWhile js_whitespace s"
  have "t = rev (takeWhile js_whitespace (rev t) @ dropWhile js_whitespace (rev t))"
    by (simp only: takeWhile_dropWhile_id rev_rev_ident)
  also have "\<dots> = rev (dropWhile js_whitespace (rev t)) @ rev (takeWhile js_whitespace (rev t))"
    by (simp only: rev_append)
  finally have t: "t = trim s @ rev (takeWhile js_whitespace (rev t))"
    by (simp only: trim_def t_def [symmetric])
  with False have "hd t = hd (trim s)" and "t \<noteq> []"
    by (metis hd_append2, metis append_is_Nil_conv)
  moreover from \<open>t \<noteq> []\<close> have "\<not> js_whitespace (hd t)"
    unfolding t_def by (rule hd_dropWhile)
  moreover have "js_whitespace 0xFEFF" by (simp add: js_whitespace_def)
  ultimately show ?thesis by metis
qed

subsection \<open>\<^verbatim>\<open>toB64\<close> and \<^verbatim>\<open>fromB64\<close>\<close>

text \<open>
  \<^verbatim>\<open>toB64\<close> returns the base64 text of the bytes, or throws RangeError when the engine
  does not take so many arguments; \<^verbatim>\<open>fromB64\<close> reads every such text back.
\<close>

lemma toB64_eq:
  "toB64 P bs = (if spread_accepted P (length bs) then Inr (b64_encode bs) else Inl RangeError)"
  by (simp add: toB64_def btoa_fromCharCode)

lemma toB64_Inr: "toB64 P bs = Inr s \<Longrightarrow> s = b64_encode bs"
  by (simp add: toB64_eq split: if_splits)

lemma fromB64_b64_encode: "fromB64 (b64_encode bs) = Some bs"
  by (simp add: fromB64_def atob_b64_encode ucast_byte comp_def)

lemma fromB64_toB64: "toB64 P bs = Inr s \<Longrightarrow> fromB64 s = Some bs"
  by (auto dest: toB64_Inr simp: fromB64_b64_encode)

lemma b64_encode_inject: "b64_encode a = b64_encode b \<longleftrightarrow> a = b"
  by (metis fromB64_b64_encode option.inject)

subsection \<open>Lists\<close>

lemma update_fresh: "map_of al k = None \<Longrightarrow> AList.update k v al = al @ [(k, v)]"
  by (induction al) (auto split: if_splits)

lemma distinct_count_list: "distinct xs \<Longrightarrow> count_list xs k \<le> 1"
  by (induction xs) auto

lemma map_aesKey_update:
  "a < length xs \<Longrightarrow> aesKey c = aesKey (xs ! a) \<Longrightarrow> map aesKey (xs[a := c]) = map aesKey xs"
  by (simp add: map_update list_update_same_conv)

lemma run_append: "run P (evs @ evs') st = run P evs' (run P evs st)"
  by (induction evs arbitrary: st) simp_all

subsection \<open>What each operation leaves alone\<close>

text \<open>
  The dedup set, the map of connections and the keys of the session objects in the
  store, across the operations that do not create a session.
\<close>

lemma session_Some: "session st a = Some c \<longleftrightarrow> a < length (sessions st) \<and> c = sessions st ! a"
  by (auto simp: session_def)

lemma frame_simps [simp]:
  "signalSeen (setStatus t st) = signalSeen st"
  "signalSeen (sendSignal tid pl st) = signalSeen st"
  "signalSeen (alert n st) = signalSeen st"
  "signalSeen (addMessage m st) = signalSeen st"
  "connections (setStatus t st) = connections st"
  "connections (sendSignal tid pl st) = connections st"
  "connections (alert n st) = connections st"
  "connections (addMessage m st) = connections st"
  "sessions (setStatus t st) = sessions st"
  "sessions (sendSignal tid pl st) = sessions st"
  "sessions (alert n st) = sessions st"
  "sessions (addMessage m st) = sessions st"
  by (auto simp: setStatus_def sendSignal_def alert_def addMessage_def split: option.splits)

lemma peer_call_frame:
  "peer_call P a op st = Inr st' \<Longrightarrow>
   signalSeen st' = signalSeen st \<and> connections st' = connections st \<and>
   map aesKey (sessions st') = map aesKey (sessions st)"
  by (auto simp: peer_call_def session_Some map_aesKey_update split: option.splits if_splits)

lemma handleOffer_frame:
  "signalSeen (fst (handleOffer P a f d st)) = signalSeen st \<and>
   connections (fst (handleOffer P a f d st)) = connections st \<and>
   map aesKey (sessions (fst (handleOffer P a f d st))) = map aesKey (sessions st)"
  by (auto simp: handleOffer_def Let_def dest!: peer_call_frame split: sum.splits)

lemma handleAnswer_frame:
  "signalSeen (fst (handleAnswer P a f d st)) = signalSeen st \<and>
   connections (fst (handleAnswer P a f d st)) = connections st \<and>
   map aesKey (sessions (fst (handleAnswer P a f d st))) = map aesKey (sessions st)"
  by (auto simp: handleAnswer_def dest!: peer_call_frame split: sum.splits)

lemma handleIce_frame:
  "signalSeen (fst (handleIce P a d st)) = signalSeen st \<and>
   connections (fst (handleIce P a d st)) = connections st \<and>
   map aesKey (sessions (fst (handleIce P a d st))) = map aesKey (sessions st)"
  by (auto simp: handleIce_def dest!: peer_call_frame split: sum.splits)

lemma dispatch_frame:
  "signalSeen (fst (dispatch P a f d st)) = signalSeen st \<and>
   connections (fst (dispatch P a f d st)) = connections st \<and>
   map aesKey (sessions (fst (dispatch P a f d st))) = map aesKey (sessions st)"
  by (simp add: dispatch_def handleOffer_frame handleAnswer_frame handleIce_frame)

text \<open>
  \<^verbatim>\<open>createConnection\<close> adds one object to the store, with the key the public key text
  stands for, or throws and leaves no object.
\<close>

lemma createConnection_eq:
  "createConnection P st pid pb =
     (case key_of_pub P st pb of
        Inl e \<Rightarrow> Inl e
      | Inr k \<Rightarrow>
          Inr (st\<lparr>sessions :=
                    sessions st @ [\<lparr>peerId = pid, peer = [], channel = new_channel, aesKey = k\<rparr>]\<rparr>,
               length (sessions st)))"
  by (auto simp: createConnection_def key_of_pub_def deriveAesKey_def room_salt_def Let_def
        split: option.splits)

lemma createConnection_Inr:
  "createConnection P st pid pb = Inr (st', a) \<Longrightarrow>
   a = length (sessions st) \<and>
   (\<exists>k. key_of_pub P st pb = Inr k \<and>
        st' = st\<lparr>sessions :=
                   sessions st @ [\<lparr>peerId = pid, peer = [], channel = new_channel, aesKey = k\<rparr>]\<rparr>)"
  by (auto simp: createConnection_eq split: sum.splits)

lemma handleSignal_signalSeen:
  "signalSeen (fst (handleSignal P d st)) = signalSeen st"
  by (auto simp: handleSignal_def Let_def dispatch_frame dest!: createConnection_Inr
        split: sum.splits option.splits)

lemma handleSignal_ignored:
  "\<not> truthy (sig_from d) \<or> sig_from d = Some (myId st) \<Longrightarrow> handleSignal P d st = (st, None)"
  by (auto simp: handleSignal_def)


lemma handleSignal_derive_fails:
  "truthy (sig_from d) \<Longrightarrow> sig_from d \<noteq> Some (myId st) \<Longrightarrow>
   map_of (connections st) (or_empty (sig_from d)) = None \<Longrightarrow>
   createConnection P st (or_empty (sig_from d)) (or_empty (sig_pub d)) = Inl e \<Longrightarrow>
   handleSignal P d st = (st, Some e)"
  by (auto simp: handleSignal_def Let_def)

lemma handleSignal_creates:
  "truthy (sig_from d) \<Longrightarrow> sig_from d \<noteq> Some (myId st) \<Longrightarrow>
   map_of (connections st) (or_empty (sig_from d)) = None \<Longrightarrow>
   key_of_pub P st (or_empty (sig_pub d)) = Inr k \<Longrightarrow>
   handleSignal P d st =
     dispatch P (length (sessions st)) (or_empty (sig_from d)) d
       (st\<lparr>sessions :=
             sessions st @
               [\<lparr>peerId = or_empty (sig_from d), peer = [], channel = new_channel, aesKey = k\<rparr>],
           connections := connections st @ [(or_empty (sig_from d), length (sessions st))]\<rparr>)"
  by (simp add: handleSignal_def Let_def createConnection_eq update_fresh)

lemma setIdentity_frame:
  "signalSeen (fst (setIdentity P pair st)) = signalSeen st \<and>
   connections (fst (setIdentity P pair st)) = connections st \<and>
   sessions (fst (setIdentity P pair st)) = sessions st"
  by (auto simp: setIdentity_def Let_def split: sum.splits)

lemma importSeed_frame:
  "signalSeen (importSeed P st) = signalSeen st \<and>
   connections (importSeed P st) = connections st \<and>
   sessions (importSeed P st) = sessions st"
proof -
  have "signalSeen st3 = signalSeen st2 \<and> connections st3 = connections st2 \<and>
        sessions st3 = sessions st2"
    if "setIdentity P pair st2 = (st3, r)" for pair st2 st3 r
    using setIdentity_frame [of P pair st2] that by simp
  then show ?thesis
    by (auto simp: importSeed_def Let_def split: option.splits sum.splits prod.splits)
qed

lemma regenerate_frame:
  "signalSeen (fst (regenerate P rnd st)) = signalSeen st \<and>
   connections (fst (regenerate P rnd st)) = connections st \<and>
   sessions (fst (regenerate P rnd st)) = sessions st"
proof -
  have "signalSeen st3 = signalSeen st2 \<and> connections st3 = connections st2 \<and>
        sessions st3 = sessions st2"
    if "setIdentity P pair st2 = (st3, r)" for pair st2 st3 r
    using setIdentity_frame [of P pair st2] that by simp
  then show ?thesis
    by (auto simp: regenerate_def Let_def split: option.splits sum.splits prod.splits)
qed

lemma exportSeed_frame:
  "signalSeen (fst (exportSeed P st)) = signalSeen st \<and>
   connections (fst (exportSeed P st)) = connections st \<and>
   sessions (fst (exportSeed P st)) = sessions st"
  by (auto simp: exportSeed_def split: sum.splits)

lemma channel_send_frame:
  "signalSeen (channel_send a pl st) = signalSeen st \<and>
   connections (channel_send a pl st) = connections st \<and>
   map aesKey (sessions (channel_send a pl st)) = map aesKey (sessions st)"
  by (auto simp: channel_send_def session_Some map_aesKey_update split: option.splits)

lemma set_readyState_frame:
  "signalSeen (set_readyState a r st) = signalSeen st \<and>
   connections (set_readyState a r st) = connections st \<and>
   map aesKey (sessions (set_readyState a r st)) = map aesKey (sessions st)"
  by (auto simp: set_readyState_def session_Some map_aesKey_update split: option.splits)

lemma sendMessage_frame:
  "signalSeen (fst (sendMessage P rnd st)) = signalSeen st \<and>
   connections (fst (sendMessage P rnd st)) = connections st \<and>
   map aesKey (sessions (fst (sendMessage P rnd st))) = map aesKey (sessions st)"
  by (auto simp: sendMessage_def Let_def channel_send_frame
        split: option.splits prod.splits sum.splits)

lemma onmessage_frame:
  "signalSeen (fst (onmessage P pid key parsed st)) = signalSeen st \<and>
   connections (fst (onmessage P pid key parsed st)) = connections st \<and>
   sessions (fst (onmessage P pid key parsed st)) = sessions st"
  by (auto simp: onmessage_def split: option.splits sum.splits)

lemma makeOffer_frame:
  "signalSeen (fst (makeOffer P a pid st)) = signalSeen st \<and>
   connections (fst (makeOffer P a pid st)) = connections st \<and>
   map aesKey (sessions (fst (makeOffer P a pid st))) = map aesKey (sessions st)"
  by (auto simp: makeOffer_def Let_def dest!: peer_call_frame split: sum.splits)

lemma startConnection_signalSeen: "signalSeen (fst (startConnection P st)) = signalSeen st"
  by (simp add: startConnection_def Let_def createConnection_eq makeOffer_frame split: sum.splits)


subsection \<open>Events of the local party itself\<close>

text \<open>
  C9. A signaling event whose \<open>from\<close> is the local identifier is ignored:
  \<^verbatim>\<open>handleSignal\<close> returns with the state as it was (no session, no call on a
  transport, no signal written), and the callback of the subscription changes at most the
  dedup set.
\<close>

theorem self_signal_ignored:
  "sig_from d = Some (myId st) \<Longrightarrow>
   handleSignal P d st = (st, None) \<and>
   (\<exists>seen. fst (signalListener P (Some d) key st) = st\<lparr>signalSeen := seen\<rparr>)"
proof
  assume self: "sig_from d = Some (myId st)"
  show "handleSignal P d st = (st, None)"
    using self by (simp add: handleSignal_ignored)
  have "handleSignal P d (st\<lparr>signalSeen := insert key (signalSeen st)\<rparr>) =
        (st\<lparr>signalSeen := insert key (signalSeen st)\<rparr>, None)"
    using self by (simp add: handleSignal_ignored)
  then show "\<exists>seen. fst (signalListener P (Some d) key st) = st\<lparr>signalSeen := seen\<rparr>"
    by (cases "\<not> truthy (sig_type d) \<or> key \<in> signalSeen st")
       (auto simp: signalListener_def intro: exI [of _ "signalSeen st"])
qed

theorem self_signal_ignored_witness:
  "sig_from demo_self_offer = Some (myId demo_state) \<and>
   handleSignal demo_platform demo_self_offer demo_state = (demo_state, None)"
  using self_signal_ignored [of demo_self_offer demo_state demo_platform]
  by (simp add: demo_state_def demo_self_offer_def)

subsection \<open>Deduplication of signaling events\<close>

lemma signalListener_called:
  "snd (signalListener P dt key st) \<Longrightarrow>
   key \<notin> signalSeen st \<and> signalSeen (fst (signalListener P dt key st)) = insert key (signalSeen st)"
  by (auto simp: signalListener_def handleSignal_signalSeen split: option.splits if_splits)

lemma signalListener_not_called:
  "\<not> snd (signalListener P dt key st) \<Longrightarrow> fst (signalListener P dt key st) = st"
  by (auto simp: signalListener_def split: option.splits if_splits)

lemma signalListener_snd:
  "snd (signalListener P dt key st) =
     (case dt of None \<Rightarrow> False | Some d \<Rightarrow> truthy (sig_type d) \<and> key \<notin> signalSeen st)"
  by (auto simp: signalListener_def split: option.splits)

lemma signalListener_signalSeen:
  "signalSeen (fst (signalListener P dt key st)) =
     (if snd (signalListener P dt key st) then insert key (signalSeen st) else signalSeen st)"
  using signalListener_called [of P dt key st] signalListener_not_called [of P dt key st]
  by auto

text \<open>Only the callback and a join change the dedup set.\<close>

lemma signalSeen_step:
  "ev \<noteq> JoinClicked \<Longrightarrow> (\<And>dt key. ev \<noteq> Delivered dt key) \<Longrightarrow>
   signalSeen (step P ev st) = signalSeen st"
  by (cases ev)
     (auto simp: set_input_def copyId_def exportSeed_frame regenerate_frame importSeed_frame
        startConnection_signalSeen sendMessage_frame onicecandidate_def onopen_def
        set_readyState_frame onmessage_frame split: input_field.splits option.splits)

lemma signalSeen_Delivered:
  "signalSeen (step P (Delivered dt key) st) =
     (if snd (signalListener P dt key st) then insert key (signalSeen st) else signalSeen st)"
  using signalListener_signalSeen [of P dt key st] by simp

lemma handled_keys:
  "JoinClicked \<notin> set evs \<Longrightarrow>
   distinct (handled P evs st) \<and> set (handled P evs st) \<inter> signalSeen st = {}"
proof (induction evs arbitrary: st)
  case Nil
  then show ?case by simp
next
  case (Cons ev evs)
  then have IH: "distinct (handled P evs (step P ev st)) \<and>
      set (handled P evs (step P ev st)) \<inter> signalSeen (step P ev st) = {}"
    and nj: "ev \<noteq> JoinClicked"
    by auto
  show ?case
  proof (cases "\<exists>dt key. ev = Delivered dt key")
    case True
    then obtain dt key where ev: "ev = Delivered dt key" by blast
    show ?thesis
    proof (cases "snd (signalListener P dt key st)")
      case True
      with signalListener_called [OF True] IH ev show ?thesis by auto
    next
      case False
      with signalListener_not_called [OF False] IH ev show ?thesis by auto
    qed
  next
    case False
    then have "handled P (ev # evs) st = handled P evs (step P ev st)"
      by (cases ev) auto
    moreover from False nj have "signalSeen (step P ev st) = signalSeen st"
      by (intro signalSeen_step) auto
    ultimately show ?thesis using IH by simp
  qed
qed

lemma signalSeen_joinRoom: "trim (el_roomId st) \<noteq> [] \<Longrightarrow> signalSeen (joinRoom st) = {}"
  by (simp add: joinRoom_def Let_def listenSignals_def resetSignals_def setStatus_def)

text \<open>
  C4. Within one epoch, that is over any sequence of events without a join,
  \<^verbatim>\<open>handleSignal\<close> is called at most once for a dedup key, however often the medium
  delivers it, and not at all for a key that is already in the dedup set; every join of
  a room (a click with a room identifier in the field) empties the dedup set, so the
  guarantee holds for the current epoch only.
\<close>

theorem signal_handled_once_per_epoch:
  assumes "JoinClicked \<notin> set evs"
  shows "count_list (handled P evs st) key \<le> 1 \<and>
         (key \<in> signalSeen st \<longrightarrow> count_list (handled P evs st) key = 0) \<and>
         (trim (el_roomId st) \<noteq> [] \<longrightarrow> signalSeen (step P JoinClicked st) = {})"
proof (intro conjI impI)
  show "count_list (handled P evs st) key \<le> 1"
    using handled_keys [OF assms, of P st] distinct_count_list [of "handled P evs st" key]
    by blast
  show "count_list (handled P evs st) key = 0" if "key \<in> signalSeen st"
    using handled_keys [OF assms, of P st] that by (auto simp: count_list_0_iff)
  show "signalSeen (step P JoinClicked st) = {}" if "trim (el_roomId st) \<noteq> []"
    using that by (simp add: signalSeen_joinRoom)
qed

theorem signal_handled_once_per_epoch_witness:
  "JoinClicked \<notin> set demo_deliveries \<and>
   handled demo_platform demo_deliveries demo_state = [js ''k1''] \<and>
   count_list (handled demo_platform demo_deliveries demo_state) (js ''k1'') \<le> 1 \<and>
   js ''k1'' \<in> signalSeen (demo_state\<lparr>signalSeen := {js ''k1''}\<rparr>) \<and>
   handled demo_platform demo_deliveries (demo_state\<lparr>signalSeen := {js ''k1''}\<rparr>) = [] \<and>
   trim (el_roomId (demo_state\<lparr>signalSeen := {js ''k1''}\<rparr>)) \<noteq> [] \<and>
   signalSeen (step demo_platform JoinClicked (demo_state\<lparr>signalSeen := {js ''k1''}\<rparr>)) = {} \<and>
   handled demo_platform demo_deliveries
     (step demo_platform JoinClicked (demo_state\<lparr>signalSeen := {js ''k1''}\<rparr>)) = [js ''k1'']"
proof -
  let ?st = "demo_state\<lparr>signalSeen := {js ''k1''}\<rparr>"
  have j: "JoinClicked \<notin> set demo_deliveries" by (simp add: demo_deliveries_def)
  have k: "js ''k1'' \<noteq> js ''k2''" by (simp add: js_def)
  have s: "signalSeen demo_state = {}" by (simp add: demo_state_def)
  have t: "truthy (sig_type demo_offer)" "truthy (sig_type demo_ice)"
    by (simp_all add: demo_offer_def demo_ice_def demo_signal_def truthy_def js_def)
  have ty: "signalSeen (step demo_platform (Typed MessageInput (js ''hi'')) st0) = signalSeen st0"
    for st0 by (rule signalSeen_step) simp_all
  have ch: "signalSeen (step demo_platform (ChannelState 0 Open) st0) = signalSeen st0"
    for st0 by (rule signalSeen_step) simp_all
  have e: "handled demo_platform demo_deliveries st0 =
      (if js ''k1'' \<in> signalSeen st0 then [] else [js ''k1''])" for st0
    by (simp add: demo_deliveries_def signalListener_snd signalSeen_Delivered ty ch t k
          del: step.simps)
  have 1: "handled demo_platform demo_deliveries demo_state = [js ''k1'']"
    by (simp add: e s)
  have 2: "trim (el_roomId ?st) \<noteq> []"
    by (simp add: demo_state_def trim_def js_def js_whitespace_def)
  have 3: "js ''k1'' \<in> signalSeen ?st" by simp
  note thm1 = signal_handled_once_per_epoch [OF j, of demo_platform demo_state "js ''k1''"]
  note thm2 = signal_handled_once_per_epoch [OF j, of demo_platform ?st "js ''k1''"]
  from thm2 2 have 4: "signalSeen (step demo_platform JoinClicked ?st) = {}" by blast
  have 5: "handled demo_platform demo_deliveries (step demo_platform JoinClicked ?st) = [js ''k1'']"
    by (simp only: e 4) simp
  have 6: "handled demo_platform demo_deliveries ?st = []"
    by (simp only: e) simp
  from j thm1 1 2 3 4 5 6 show ?thesis by blast
qed

subsection \<open>Importing a seed\<close>

lemma fromB64_AAAA: "fromB64 (js ''AAAA'') = Some [0, 0, 0]"
  by (simp add: fromB64_def atob_def js_def ascii_whitespace_def strip_padding_def b64val_def)

text \<open>
  The claim C3 says that every input that does not decode to 32 bytes is answered with
  InvalidFormat. An input that is empty after \<^verbatim>\<open>trim\<close> decodes to no bytes, and
  \<^verbatim>\<open>importSeed\<close> returns on it before the \<^verbatim>\<open>try\<close>, without any alert.
\<close>

theorem importSeed_empty_counterexample:
  "fromB64 (trim (el_importSeedInput (demo_state\<lparr>el_importSeedInput := js '' ''\<rparr>))) = Some [] \<and>
   length ([] :: bytes) \<noteq> 32 \<and>
   importSeed demo_platform (demo_state\<lparr>el_importSeedInput := js '' ''\<rparr>) =
     demo_state\<lparr>el_importSeedInput := js '' ''\<rparr> \<and>
   alerts (importSeed demo_platform (demo_state\<lparr>el_importSeedInput := js '' ''\<rparr>)) = []"
proof -
  have t: "trim (js '' '') = []" by (simp add: trim_def js_def js_whitespace_def)
  have f: "fromB64 [] = Some []" by (simp add: fromB64_def atob_def strip_padding_def)
  show ?thesis by (simp add: t f importSeed_def) (simp add: demo_state_def)
qed

text \<open>
  C3, amended. When the input fails to decode, or decodes to a private key that is not
  32 bytes long, \<^verbatim>\<open>importSeed\<close> changes nothing but the alerts: it shows the alert of
  an invalid seed, or nothing at all when the trimmed input is empty. The persisted keys
  and the identity in memory, with what the page shows of it, are as they were.
\<close>

theorem importSeed_malformed:
  assumes "fromB64 (trim (el_importSeedInput st)) = None \<or>
           (\<exists>prv. fromB64 (trim (el_importSeedInput st)) = Some prv \<and> length prv \<noteq> 32)"
  shows "importSeed P st = (if trim (el_importSeedInput st) = [] then st else alert InvalidSeed st) \<and>
         myKeyPair (importSeed P st) = myKeyPair st \<and>
         localStorage (importSeed P st) = localStorage st \<and>
         myId (importSeed P st) = myId st \<and> myPubB64 (importSeed P st) = myPubB64 st \<and>
         el_myId (importSeed P st) = el_myId st \<and> el_myPub (importSeed P st) = el_myPub st"
proof -
  have "importSeed P st = (if trim (el_importSeedInput st) = [] then st else alert InvalidSeed st)"
    using assms by (auto simp: importSeed_def Let_def)
  then show ?thesis by (simp add: alert_def)
qed

theorem importSeed_malformed_witness:
  "fromB64 (trim (el_importSeedInput (demo_state\<lparr>el_importSeedInput := js '' AAAA ''\<rparr>))) =
     Some [0, 0, 0] \<and>
   importSeed demo_platform (demo_state\<lparr>el_importSeedInput := js '' AAAA ''\<rparr>) =
     alert InvalidSeed (demo_state\<lparr>el_importSeedInput := js '' AAAA ''\<rparr>) \<and>
   myKeyPair (importSeed demo_platform (demo_state\<lparr>el_importSeedInput := js '' AAAA ''\<rparr>)) =
     alice \<and>
   localStorage (importSeed demo_platform (demo_state\<lparr>el_importSeedInput := js '' AAAA ''\<rparr>)) =
     [(storageKeys_priv, js ''Aw==''), (storageKeys_pub, js ''Atg='')]"
proof -
  let ?st = "demo_state\<lparr>el_importSeedInput := js '' AAAA ''\<rparr>"
  have t: "trim (js '' AAAA '') = js ''AAAA''"
    by (simp add: trim_def js_def js_whitespace_def)
  have f: "fromB64 (trim (el_importSeedInput ?st)) = Some [0, 0, 0]"
    by (simp add: t fromB64_AAAA)
  then have h: "fromB64 (trim (el_importSeedInput ?st)) = None \<or>
           (\<exists>prv. fromB64 (trim (el_importSeedInput ?st)) = Some prv \<and> length prv \<noteq> 32)"
    by simp
  have ne: "trim (el_importSeedInput ?st) \<noteq> []"
    by (simp add: t)
  note r = importSeed_malformed [OF h, of demo_platform]
  from r ne have 1: "importSeed demo_platform ?st = alert InvalidSeed ?st"
    by presburger
  from r have "myKeyPair (importSeed demo_platform ?st) = myKeyPair ?st"
    by blast
  moreover have "myKeyPair ?st = alice"
    by (simp add: demo_state_def)
  ultimately have 2: "myKeyPair (importSeed demo_platform ?st) = alice"
    by (rule trans)
  from r have "localStorage (importSeed demo_platform ?st) = localStorage ?st"
    by blast
  moreover have "localStorage ?st = [(storageKeys_priv, js ''Aw==''), (storageKeys_pub, js ''Atg='')]"
    by (simp add: demo_state_def)
  ultimately have 3: "localStorage (importSeed demo_platform ?st) =
      [(storageKeys_priv, js ''Aw==''), (storageKeys_pub, js ''Atg='')]"
    by (rule trans)
  from f 1 2 3 show ?thesis by blast
qed

subsection \<open>Both parties derive the same session key\<close>

lemma deriveAesKey_ecdh:
  assumes "ecdh_symmetric P" and "valid_keypair P A" and "valid_keypair P B"
    and "myKeyPair stA = A" and "myKeyPair stB = B"
    and "fromB64 a = Some (pub A)" and "fromB64 b = Some (pub B)"
  shows "deriveAesKey P stA b s = deriveAesKey P stB a s"
proof -
  from assms(1-3) have "getSharedSecret P (priv A) (pub B) = getSharedSecret P (priv B) (pub A)"
    unfolding ecdh_symmetric_def valid_keypair_def by blast
  with assms(4-7) show ?thesis
    by (simp add: deriveAesKey_def)
qed

text \<open>
  C1. Given the symmetry of the key agreement of the library, for all valid keypairs
  \<open>A\<close> and \<open>B\<close> and every salt, the party holding \<open>A\<close> derives from the public key of
  \<open>B\<close>, as it travels in base64, the same result as the party holding \<open>B\<close> derives from
  the public key of \<open>A\<close>: the same key, or on both sides the same exception. The
  base64 text of a key is the one \<^verbatim>\<open>toB64\<close> returns for it whenever it returns.
\<close>

theorem derive_symmetric:
  assumes "ecdh_symmetric P" and "valid_keypair P A" and "valid_keypair P B"
    and "myKeyPair stA = A" and "myKeyPair stB = B"
  shows "deriveAesKey P stA (b64_encode (pub B)) s = deriveAesKey P stB (b64_encode (pub A)) s \<and>
         (\<forall>a b. toB64 P (pub A) = Inr a \<and> toB64 P (pub B) = Inr b \<longrightarrow>
            a = b64_encode (pub A) \<and> b = b64_encode (pub B) \<and>
            deriveAesKey P stA b s = deriveAesKey P stB a s)"
proof -
  have "deriveAesKey P stA (b64_encode (pub B)) s = deriveAesKey P stB (b64_encode (pub A)) s"
    using assms by (rule deriveAesKey_ecdh) (rule fromB64_b64_encode)+
  then show ?thesis by (auto dest: toB64_Inr)
qed

lemma demo_ecdh: "ecdh_symmetric demo_platform"
proof -
  have u: "unat (word_of_nat (m mod 251) :: 8 word) = m mod 251" for m
  proof (rule unat_word8)
    have "m mod 251 < 251" by simp
    then show "m mod 251 < 256" by linarith
  qed
  have "(6 ^ x mod 251) ^ y mod 251 = (6 ^ y mod 251) ^ x mod (251 :: nat)" for x y :: nat
    by (simp add: power_mod power_mult [symmetric] mult.commute)
  then show ?thesis
    by (auto simp: ecdh_symmetric_def demo_platform_def u simp del: of_nat_mod of_nat_power split: if_splits)
qed

lemma b64_alice: "b64_encode [2, 216] = js ''Atg=''"
  apply (simp add: Let_def)
  apply (simp add: b64char_def js_def)
  done

lemma b64_bob: "b64_encode [2, 246] = js ''AvY=''"
  apply (simp add: Let_def)
  apply (simp add: b64char_def js_def)
  done

theorem derive_symmetric_witness:
  "ecdh_symmetric demo_platform \<and> valid_keypair demo_platform alice \<and>
   valid_keypair demo_platform bob \<and>
   toB64 demo_platform (pub alice) = Inr (js ''Atg='') \<and>
   toB64 demo_platform (pub bob) = Inr (js ''AvY='') \<and>
   deriveAesKey demo_platform demo_state (js ''AvY='') (js ''r1'') =
     deriveAesKey demo_platform (demo_state\<lparr>myKeyPair := bob\<rparr>) (js ''Atg='') (js ''r1'') \<and>
   deriveAesKey demo_platform demo_state (js ''AvY='') (js ''r1'') =
     Inr ([126] @ utf8_encode (js ''r1'') @ utf8_encode (js ''maxkorotzi-e2ee''))"
proof -
  have a: "valid_keypair demo_platform alice" and b: "valid_keypair demo_platform bob"
    by (simp_all add: valid_keypair_def demo_platform_def alice_def bob_def)
  have ka: "myKeyPair demo_state = alice" by (simp add: demo_state_def)
  have kb: "myKeyPair (demo_state\<lparr>myKeyPair := bob\<rparr>) = bob" by simp
  have ta: "toB64 demo_platform (pub alice) = Inr (js ''Atg='')"
    by (simp add: toB64_eq alice_def b64_alice del: b64_encode.simps) (simp add: demo_platform_def)
  have tb: "toB64 demo_platform (pub bob) = Inr (js ''AvY='')"
    by (simp add: toB64_eq bob_def b64_bob del: b64_encode.simps) (simp add: demo_platform_def)
  have s: "getSharedSecret demo_platform (priv alice) (pub bob) = Some [2, 126]"
    by (simp add: demo_platform_def alice_def bob_def)
  have f: "fromB64 (js ''AvY='') = Some (pub bob)"
    using fromB64_b64_encode [of "[2, 246]"] by (simp add: b64_bob bob_def del: b64_encode.simps)
  have v: "deriveAesKey demo_platform demo_state (js ''AvY='') (js ''r1'') =
     Inr ([126] @ utf8_encode (js ''r1'') @ utf8_encode (js ''maxkorotzi-e2ee''))"
    by (simp add: deriveAesKey_def f ka s) (simp add: demo_platform_def)
  from derive_symmetric [OF demo_ecdh a b ka kb, of "js ''r1''"] ta tb
  have "deriveAesKey demo_platform demo_state (js ''AvY='') (js ''r1'') =
     deriveAesKey demo_platform (demo_state\<lparr>myKeyPair := bob\<rparr>) (js ''Atg='') (js ''r1'')"
    by blast
  with demo_ecdh a b ta tb v show ?thesis by blast
qed

subsection \<open>An \<^verbatim>\<open>ice\<close> event from a peer without a session\<close>







subsection \<open>Malformed peer public keys\<close>

lemma deriveAesKey_malformed:
  "malformed_pub P st s \<Longrightarrow> deriveAesKey P st s salt = Inl (derive_error s)"
  by (auto simp: malformed_pub_def deriveAesKey_def derive_error_def split: option.splits)

lemma createConnection_malformed:
  "s \<noteq> [] \<Longrightarrow> malformed_pub P st s \<Longrightarrow> createConnection P st pid s = Inl (derive_error s)"
  by (simp add: createConnection_def Let_def deriveAesKey_malformed)

lemma key_of_pub_empty: "key_of_pub P st [] = Inr None"
  by (simp add: key_of_pub_def)

lemma session_at:
  "map aesKey (sessions st') = map aesKey (sessions st) @ k # ks \<Longrightarrow>
   \<exists>c. session st' (length (sessions st)) = Some c \<and> aesKey c = k"
proof -
  assume m: "map aesKey (sessions st') = map aesKey (sessions st) @ k # ks"
  then have "length (map aesKey (sessions st')) = length (map aesKey (sessions st) @ k # ks)"
    by simp
  then have l: "length (sessions st) < length (sessions st')" by simp
  then have "aesKey (sessions st' ! length (sessions st)) =
      map aesKey (sessions st') ! length (sessions st)"
    by simp
  also have "\<dots> = k"
    by (simp only: m) (simp add: nth_append)
  finally show ?thesis using l by (simp add: session_def)
qed

lemma handleSignal_new_session:
  assumes "truthy (sig_from d)" and "sig_from d \<noteq> Some (myId st)"
    and "map_of (connections st) (or_empty (sig_from d)) = None"
    and "key_of_pub P st (or_empty (sig_pub d)) = Inr k"
  shows "connections (fst (handleSignal P d st)) =
           connections st @ [(or_empty (sig_from d), length (sessions st))]"
    and "map aesKey (sessions (fst (handleSignal P d st))) = map aesKey (sessions st) @ [k]"
  using assms by (simp_all add: handleSignal_creates dispatch_frame)

text \<open>
  The claim C6 says that no malformed key, one of the wrong length among them, gets a
  session. The empty text decodes to a key of no bytes, on which the key agreement
  throws; but \<^verbatim>\<open>createConnection\<close> reads an empty text as no key at all, so an offer
  with an empty \<open>pub\<close> gets a session, without a key, and no error.
\<close>

theorem malformed_pub_no_session_counterexample:
  "sig_pub demo_empty_pub_offer = Some [] \<and> fromB64 [] = Some [] \<and>
   malformed_pub demo_platform demo_state [] \<and>
   connections demo_state = [] \<and>
   snd (handleSignal demo_platform demo_empty_pub_offer demo_state) = None \<and>
   session_keys (fst (handleSignal demo_platform demo_empty_pub_offer demo_state)) =
     [(js ''AvY'', None)]"
proof -
  have f: "fromB64 [] = Some []" by (simp add: fromB64_def atob_def strip_padding_def)
  have m: "malformed_pub demo_platform demo_state []"
    by (simp add: malformed_pub_def f demo_platform_def)
  have "handleSignal demo_platform demo_empty_pub_offer demo_state =
      handleOffer demo_platform 0 (js ''AvY'') demo_empty_pub_offer
        (demo_state\<lparr>sessions :=
            [\<lparr>peerId = js ''AvY'', peer = [], channel = new_channel, aesKey = None\<rparr>],
          connections := [(js ''AvY'', 0)]\<rparr>)"
    by (simp add: handleSignal_def demo_empty_pub_offer_def demo_signal_def truthy_def or_empty_def
          createConnection_eq key_of_pub_empty dispatch_def Let_def demo_state_def)
  then have "snd (handleSignal demo_platform demo_empty_pub_offer demo_state) = None \<and>
      session_keys (fst (handleSignal demo_platform demo_empty_pub_offer demo_state)) =
        [(js ''AvY'', None)]"
    by (simp add: handleOffer_def peer_call_def session_def created_sdp_def Let_def
          session_keys_def)
       (simp add: demo_platform_def)
  with f m show ?thesis
    by (simp add: demo_empty_pub_offer_def demo_signal_def) (simp add: demo_state_def)
qed

text \<open>
  C6, amended. When the peer public key is not empty and malformed (\<^verbatim>\<open>fromB64\<close> or
  \<^verbatim>\<open>getSharedSecret\<close> throws on it), the derivation of the session key fails with
  that exception, \<^verbatim>\<open>createConnection\<close> fails with it, and no session is recorded:
  \<^verbatim>\<open>handleSignal\<close>, for a sender without a session, and \<^verbatim>\<open>startConnection\<close> both
  end with the exception and the state, so the map of connections, as it was. An empty
  key is read as a missing one: \<^verbatim>\<open>handleSignal\<close> records a session object without a
  key for the sender, and \<^verbatim>\<open>startConnection\<close> asks for the key and records nothing.
\<close>

theorem malformed_pub_no_session:
  "(s \<noteq> [] \<and> malformed_pub P st s \<longrightarrow>
      deriveAesKey P st s salt = Inl (derive_error s) \<and>
      createConnection P st pid s = Inl (derive_error s) \<and>
      (truthy (sig_from d) \<and> sig_from d \<noteq> Some (myId st) \<and>
       map_of (connections st) (or_empty (sig_from d)) = None \<and> sig_pub d = Some s \<longrightarrow>
       handleSignal P d st = (st, Some (derive_error s))) \<and>
      (room st \<noteq> None \<and> trim (el_peerId st) \<noteq> [] \<and> trim (el_peerPub st) = s \<longrightarrow>
       startConnection P st = (st, Some (derive_error s)))) \<and>
   (truthy (sig_from d) \<and> sig_from d \<noteq> Some (myId st) \<and>
    map_of (connections st) (or_empty (sig_from d)) = None \<and> or_empty (sig_pub d) = [] \<longrightarrow>
      map_of (connections (fst (handleSignal P d st))) (or_empty (sig_from d)) =
        Some (length (sessions st)) \<and>
      (\<exists>c. session (fst (handleSignal P d st)) (length (sessions st)) = Some c \<and>
           aesKey c = None)) \<and>
   (room st \<noteq> None \<and> trim (el_peerPub st) = [] \<longrightarrow>
      startConnection P st = (alert NeedIdAndPub st, None))"
proof (intro conjI impI)
  assume a: "s \<noteq> [] \<and> malformed_pub P st s"
  then show "deriveAesKey P st s salt = Inl (derive_error s)"
    by (simp add: deriveAesKey_malformed)
  from a show "createConnection P st pid s = Inl (derive_error s)"
    by (simp add: createConnection_malformed)
  {
    assume h: "truthy (sig_from d) \<and> sig_from d \<noteq> Some (myId st) \<and>
          map_of (connections st) (or_empty (sig_from d)) = None \<and> sig_pub d = Some s"
    then have "createConnection P st (or_empty (sig_from d)) (or_empty (sig_pub d)) =
               Inl (derive_error s)"
      using a by (simp add: createConnection_malformed or_empty_def)
    with h show "handleSignal P d st = (st, Some (derive_error s))"
      by (simp add: handleSignal_derive_fails)
  }
  {
    assume h: "room st \<noteq> None \<and> trim (el_peerId st) \<noteq> [] \<and> trim (el_peerPub st) = s"
    then have "createConnection P st (trim (el_peerId st)) (trim (el_peerPub st)) =
               Inl (derive_error s)"
      using a by (simp add: createConnection_malformed)
    with h a show "startConnection P st = (st, Some (derive_error s))"
      by (auto simp: startConnection_def Let_def)
  }
next
  assume h: "truthy (sig_from d) \<and> sig_from d \<noteq> Some (myId st) \<and>
    map_of (connections st) (or_empty (sig_from d)) = None \<and> or_empty (sig_pub d) = []"
  then have k: "key_of_pub P st (or_empty (sig_pub d)) = Inr None"
    by (simp add: key_of_pub_empty)
  from h handleSignal_new_session(1) [OF _ _ _ k]
  show "map_of (connections (fst (handleSignal P d st))) (or_empty (sig_from d)) =
        Some (length (sessions st))"
    by (simp add: map_add_def)
  from h handleSignal_new_session(2) [OF _ _ _ k]
  have "map aesKey (sessions (fst (handleSignal P d st))) = map aesKey (sessions st) @ None # []"
    by simp
  then show "\<exists>c. session (fst (handleSignal P d st)) (length (sessions st)) = Some c \<and>
           aesKey c = None"
    by (rule session_at)
next
  assume "room st \<noteq> None \<and> trim (el_peerPub st) = []"
  then show "startConnection P st = (alert NeedIdAndPub st, None)"
    by (simp add: startConnection_def Let_def)
qed

theorem malformed_pub_no_session_witness:
  "js ''AAAA'' \<noteq> [] \<and> malformed_pub demo_platform demo_state (js ''AAAA'') \<and>
   handleSignal demo_platform demo_bad_offer demo_state = (demo_state, Some CurveError) \<and>
   startConnection demo_platform
     (demo_state\<lparr>el_peerId := js ''AvY'', el_peerPub := js ''AAAA''\<rparr>) =
     (demo_state\<lparr>el_peerId := js ''AvY'', el_peerPub := js ''AAAA''\<rparr>, Some CurveError) \<and>
   or_empty (sig_pub demo_empty_pub_offer) = [] \<and>
   map_of (connections (fst (handleSignal demo_platform demo_empty_pub_offer demo_state)))
     (js ''AvY'') = Some 0 \<and>
   (\<exists>c. session (fst (handleSignal demo_platform demo_empty_pub_offer demo_state)) 0 = Some c \<and>
        aesKey c = None) \<and>
   startConnection demo_platform (demo_state\<lparr>el_peerId := js ''AvY''\<rparr>) =
     (alert NeedIdAndPub (demo_state\<lparr>el_peerId := js ''AvY''\<rparr>), None)"
proof -
  let ?st = "demo_state\<lparr>el_peerId := js ''AvY'', el_peerPub := js ''AAAA''\<rparr>"
  let ?st' = "demo_state\<lparr>el_peerId := js ''AvY''\<rparr>"
  have ne: "js ''AAAA'' \<noteq> []" by simp
  have m: "malformed_pub demo_platform demo_state (js ''AAAA'')"
    by (simp add: malformed_pub_def fromB64_AAAA demo_platform_def)
  have m': "malformed_pub demo_platform ?st (js ''AAAA'')"
    by (simp add: malformed_pub_def fromB64_AAAA demo_platform_def)
  have e: "derive_error (js ''AAAA'') = CurveError"
    by (simp add: derive_error_def fromB64_AAAA)
  have t: "trim (js ''AvY'') = js ''AvY''" "trim (js ''AAAA'') = js ''AAAA''"
    by (simp_all add: trim_def js_def js_whitespace_def)
  have s: "truthy (sig_from demo_bad_offer) \<and> sig_from demo_bad_offer \<noteq> Some (myId demo_state) \<and>
      map_of (connections demo_state) (or_empty (sig_from demo_bad_offer)) = None \<and>
      sig_pub demo_bad_offer = Some (js ''AAAA'')"
    by (simp add: demo_bad_offer_def demo_signal_def demo_state_def truthy_def or_empty_def)
  have s': "truthy (sig_from demo_empty_pub_offer) \<and>
      sig_from demo_empty_pub_offer \<noteq> Some (myId demo_state) \<and>
      map_of (connections demo_state) (or_empty (sig_from demo_empty_pub_offer)) = None \<and>
      or_empty (sig_pub demo_empty_pub_offer) = []"
    by (simp add: demo_empty_pub_offer_def demo_signal_def demo_state_def truthy_def or_empty_def)
  have f: "or_empty (sig_from demo_empty_pub_offer) = js ''AvY''" "length (sessions demo_state) = 0"
    by (simp_all add: demo_empty_pub_offer_def demo_signal_def or_empty_def demo_state_def)
  have r: "room ?st \<noteq> None \<and> trim (el_peerId ?st) \<noteq> [] \<and> trim (el_peerPub ?st) = js ''AAAA''"
    by (simp add: t) (simp add: demo_state_def)
  have r': "room ?st' \<noteq> None \<and> trim (el_peerPub ?st') = []"
    by (simp add: demo_state_def trim_def)
  from malformed_pub_no_session [of "js ''AAAA''" demo_platform demo_state "[]" "[]" demo_bad_offer]
    ne m s e
  have 1: "handleSignal demo_platform demo_bad_offer demo_state = (demo_state, Some CurveError)"
    by simp
  from malformed_pub_no_session [of "js ''AAAA''" demo_platform ?st "[]" "[]" demo_bad_offer]
    ne m' r e
  have 2: "startConnection demo_platform ?st = (?st, Some CurveError)"
    by simp
  from malformed_pub_no_session [of "[]" demo_platform demo_state "[]" "[]" demo_empty_pub_offer] s'
  have 3: "map_of (connections (fst (handleSignal demo_platform demo_empty_pub_offer demo_state)))
        (or_empty (sig_from demo_empty_pub_offer)) = Some (length (sessions demo_state)) \<and>
      (\<exists>c. session (fst (handleSignal demo_platform demo_empty_pub_offer demo_state))
              (length (sessions demo_state)) = Some c \<and> aesKey c = None)"
    by blast
  from malformed_pub_no_session [of "[]" demo_platform ?st' "[]" "[]" demo_empty_pub_offer] r'
  have 4: "startConnection demo_platform ?st' = (alert NeedIdAndPub ?st', None)"
    by blast
  from ne m 1 2 s' 3 4 show ?thesis
    by (simp only: f) simp
qed

subsection \<open>The example runs, step by step\<close>

lemma trim_demo:
  "trim (js ''AvY'') = js ''AvY''" "trim (js ''AvY='') = js ''AvY=''" "trim (js ''hi'') = js ''hi''"
  "trim (js ''r1'') = js ''r1''"
  by (simp_all add: trim_def js_def js_whitespace_def)

lemma fromB64_bob: "fromB64 (js ''AvY='') = Some [2, 246]"
  using fromB64_b64_encode [of "[2, 246]"] by (simp add: b64_bob del: b64_encode.simps)

lemma demo_transport [simp]:
  "transport_accepts demo_platform ops op" "transport_sdp demo_platform ops = js ''v=0''"
  by (simp_all add: demo_platform_def)

lemma key_of_pub_demo:
  "myKeyPair st = alice \<Longrightarrow> trim (el_roomId st) = js ''r1'' \<Longrightarrow>
   key_of_pub demo_platform st (js ''AvY='') = Inr (Some demo_key)"
  by (simp add: key_of_pub_def fromB64_bob room_salt_def demo_key_def demo_platform_def alice_def)


lemmas demo_eval =
  signalListener_def demo_offer_def demo_stranger_ice_def demo_ice_def demo_signal_def truthy_def
  handleSignal_def handleIce_def handleOffer_def dispatch_def or_empty_def peer_call_def
  session_def created_sdp_def setStatus_def sendSignal_def Let_def demo_state_def set_input_def
  startConnection_def trim_demo createConnection_eq key_of_pub_empty key_of_pub_demo makeOffer_def
  onmessage_def addMessage_def set_readyState_def onopen_def new_channel_def



subsection \<open>The session key of a session\<close>















subsection \<open>Sending a message\<close>

text \<open>
  What \<^verbatim>\<open>sendMessage\<close> does: when the first open session of the map has no key, and
  so when no open session has one, the send is rejected and nothing is sent; when the
  first open session has a key and \<^verbatim>\<open>encryptMessage\<close> returns, one payload is sent on
  it.
\<close>

lemma sendMessage_first_keyless:
  assumes "trim (el_messageInput st) \<noteq> []"
    and "List.find (\<lambda>(a, c). readyState (channel c) = Open) (connection_values st) = Some (a, c)"
    and "aesKey c = None"
  shows "sendMessage P rnd st = (alert NoActiveChannel st, None, rnd)"
  using assms by (simp add: sendMessage_def)

lemma sendMessage_rejected:
  assumes "trim (el_messageInput st) \<noteq> []"
    and "list_all (\<lambda>(a, c). readyState (channel c) = Open \<longrightarrow> aesKey c = None)
           (connection_values st)"
  shows "sendMessage P rnd st = (alert NoActiveChannel st, None, rnd)"
proof (cases "List.find (\<lambda>(a, c). readyState (channel c) = Open) (connection_values st)")
  case None
  with assms(1) show ?thesis by (simp add: sendMessage_def)
next
  case (Some ac)
  obtain a c where ac: "ac = (a, c)" by (cases ac)
  from Some ac have "(a, c) \<in> set (connection_values st)" "readyState (channel c) = Open"
    by (auto simp: find_Some_iff in_set_conv_nth)
  with assms(2) have "aesKey c = None"
    by (auto simp: list_all_iff)
  with Some ac assms(1) show ?thesis by (simp add: sendMessage_first_keyless)
qed

lemma sendMessage_sends:
  assumes "trim (el_messageInput st) \<noteq> []"
    and "List.find (\<lambda>(a, c). readyState (channel c) = Open) (connection_values st) = Some (a, c)"
    and "aesKey c = Some key"
    and "encryptMessage P rnd key (trim (el_messageInput st)) = (Inr pl, rnd')"
  shows "sendMessage P rnd st =
         ((addMessage (FromMe (trim (el_messageInput st))) (channel_send a pl st))
            \<lparr>el_messageInput := []\<rparr>, None, rnd')"
  using assms by (simp add: sendMessage_def)

lemma sendMessage_throws:
  assumes "trim (el_messageInput st) \<noteq> []"
    and "List.find (\<lambda>(a, c). readyState (channel c) = Open) (connection_values st) = Some (a, c)"
    and "aesKey c = Some key"
    and "encryptMessage P rnd key (trim (el_messageInput st)) = (Inl e, rnd')"
  shows "sendMessage P rnd st = (st, Some e, rnd')"
  using assms by (simp add: sendMessage_def)

lemma demo_send_setup:
  "sessions (run demo_platform (butlast demo_send_run) demo_state) =
     [\<lparr>peerId = js ''Zm9v'', peer = [AddIceCandidate (js ''candidate:1'')],
       channel = \<lparr>readyState = Open, sent = []\<rparr>, aesKey = None\<rparr>,
      \<lparr>peerId = js ''AvY'', peer = [CreateOffer, SetLocalDescription (js ''offer'') (js ''v=0'')],
       channel = \<lparr>readyState = Open, sent = []\<rparr>, aesKey = Some demo_key\<rparr>]"
  "connections (run demo_platform (butlast demo_send_run) demo_state) =
     [(js ''Zm9v'', 0), (js ''AvY'', 1)]"
  "el_messageInput (run demo_platform (butlast demo_send_run) demo_state) = js ''hi''"
  by (simp_all add: demo_send_run_def demo_eval)

text \<open>
  C5 asks that a send goes out on some session whose channel is open and whose key is
  set. The run \<open>demo_send_run\<close> reaches a state with two open sessions, the first
  without a key (its first event was an \<^verbatim>\<open>ice\<close> event, which carries no \<open>pub\<close>) and
  the second with one. \<^verbatim>\<open>sendMessage\<close> there only alerts: nothing is sent on the
  second session, although it is open and has its key.
\<close>

theorem sendMessage_first_open_only:
  "\<exists>k. session_view (run demo_platform (butlast demo_send_run) demo_state) =
       [(js ''Zm9v'', Open, False, []), (js ''AvY'', Open, True, [])] \<and>
     map_of (session_keys (run demo_platform (butlast demo_send_run) demo_state)) (js ''AvY'') =
       Some (Some k) \<and>
     run demo_platform demo_send_run demo_state =
       alert NoActiveChannel (run demo_platform (butlast demo_send_run) demo_state)"
proof -
  define st where "st = run demo_platform (butlast demo_send_run) demo_state"
  note s = demo_send_setup [folded st_def]
  have v: "connection_values st =
     [(0, \<lparr>peerId = js ''Zm9v'', peer = [AddIceCandidate (js ''candidate:1'')],
           channel = \<lparr>readyState = Open, sent = []\<rparr>, aesKey = None\<rparr>),
      (1, \<lparr>peerId = js ''AvY'', peer = [CreateOffer, SetLocalDescription (js ''offer'') (js ''v=0'')],
           channel = \<lparr>readyState = Open, sent = []\<rparr>, aesKey = Some demo_key\<rparr>)]"
    by (simp add: connection_values_def session_def s)
  have "demo_send_run = butlast demo_send_run @ [SendClicked (\<lambda>i. 0)]"
    by (simp add: demo_send_run_def)
  then have "run demo_platform demo_send_run demo_state =
      run demo_platform [SendClicked (\<lambda>i. 0)] st"
    unfolding st_def by (metis run_append)
  also have "\<dots> = fst (sendMessage demo_platform (\<lambda>i. 0) st)"
    by simp
  also have "\<dots> = alert NoActiveChannel st"
    by (simp add: sendMessage_def s v trim_demo)
  finally have "run demo_platform demo_send_run demo_state = alert NoActiveChannel st" .
  moreover have "session_view st = [(js ''Zm9v'', Open, False, []), (js ''AvY'', Open, True, [])]"
    by (simp add: session_view_def session_def s)
  moreover have "map_of (session_keys st) (js ''AvY'') = Some (Some demo_key)"
    by (simp add: session_keys_def session_def s)
  ultimately show ?thesis unfolding st_def by blast
qed

subsection \<open>Encrypting and decrypting a message\<close>

lemma encryptMessage_eq:
  "encryptMessage P rnd key text =
     (if spread_accepted P 12 \<and>
         spread_accepted P (length (aes_gcm_encrypt P key (map rnd [0..<12]) (utf8_encode text)))
      then Inr \<lparr>iv = b64_encode (map rnd [0..<12]),
                data = b64_encode (aes_gcm_encrypt P key (map rnd [0..<12]) (utf8_encode text))\<rparr>
      else Inl RangeError,
      \<lambda>i. rnd (i + 12))"
  by (simp add: encryptMessage_def getRandomValues_def toB64_eq Let_def)

lemma decryptMessage_b64:
  "decryptMessage P key \<lparr>iv = b64_encode nonce, data = b64_encode cipher\<rparr> =
     (case aes_gcm_decrypt P key nonce cipher of
        None \<Rightarrow> Inl OperationError
      | Some plain \<Rightarrow> Inr (utf8_decode plain))"
  by (simp add: decryptMessage_def fromB64_b64_encode)

lemma key_tag_prefix: "key_tag k @ x = key_tag k' @ y \<Longrightarrow> k = k'"
proof (induction k arbitrary: k')
  case Nil
  then show ?case by (cases k') simp_all
next
  case (Cons b k)
  then show ?case by (cases k') auto
qed

lemma demo_decrypt:
  "aes_gcm_decrypt demo_platform key' nonce (aes_gcm_encrypt demo_platform key nonce plain) =
     (if key' = key then Some plain else None)"
proof (cases "key' = key")
  case True
  then show ?thesis by (simp add: demo_platform_def)
next
  case False
  have "take (length (key_tag key' @ nonce)) (key_tag key @ nonce @ plain) \<noteq> key_tag key' @ nonce"
  proof
    assume "take (length (key_tag key' @ nonce)) (key_tag key @ nonce @ plain) = key_tag key' @ nonce"
    then have "(key_tag key' @ nonce) @
        drop (length (key_tag key' @ nonce)) (key_tag key @ nonce @ plain) =
        key_tag key @ nonce @ plain"
      by (metis append_take_drop_id)
    then have "key_tag key' @ (nonce @ drop (length (key_tag key' @ nonce)) (key_tag key @ nonce @ plain)) =
        key_tag key @ (nonce @ plain)"
      by simp
    then have "key' = key" by (rule key_tag_prefix)
    with False show False by simp
  qed
  with False show ?thesis by (simp add: demo_platform_def)
qed

lemma demo_aead: "aead_correct demo_platform"
  by (simp add: aead_correct_def demo_decrypt)

lemma demo_wrong_key: "wrong_key_rejected demo_platform"
  by (simp add: wrong_key_rejected_def demo_decrypt)

lemma demo_nonce_sensitive: "nonce_sensitive demo_platform"
  by (simp add: nonce_sensitive_def demo_platform_def)

lemma small_engine_cipher:
  "aes_gcm_encrypt small_engine = aes_gcm_encrypt demo_platform"
  "aes_gcm_decrypt small_engine = aes_gcm_decrypt demo_platform"
  by (simp_all add: small_engine_def)

lemma utf8_hi: "utf8_encode (js ''hi'') = [0x68, 0x69]"
  by (simp add: js_def high_surrogate_def low_surrogate_def utf8_bytes_def)

text \<open>
  The claim C7, that decrypting returns the plaintext for every plaintext, fails on a
  message with a surrogate that is not part of a pair, which \<^verbatim>\<open>sendMessage\<close> passes
  on as it is: \<^verbatim>\<open>encoder.encode\<close> writes U+FFFD for it. It also fails on a text that
  starts with U+FEFF: \<^verbatim>\<open>decoder.decode\<close> drops a leading byte order mark.
\<close>

theorem message_roundtrip_counterexample:
  "trim demo_lone_text = demo_lone_text \<and> demo_lone_text = [0x68, 0x69, 0xD83D] \<and>
   (case fst (encryptMessage demo_platform (\<lambda>i. 0) [1] demo_lone_text) of
      Inl e \<Rightarrow> False
    | Inr pl \<Rightarrow> decryptMessage demo_platform [1] pl = Inr [0x68, 0x69, 0xFFFD]) \<and>
   demo_bom_text = [0xFEFF, 0x68, 0x69] \<and>
   (case fst (encryptMessage demo_platform (\<lambda>i. 0) [1] demo_bom_text) of
      Inl e \<Rightarrow> False
    | Inr pl \<Rightarrow> decryptMessage demo_platform [1] pl = Inr [0x68, 0x69])"
proof -
  have t: "trim demo_lone_text = demo_lone_text"
    by (simp add: trim_def demo_lone_text_def js_whitespace_def)
  have 1: "utf8_decode (utf8_encode demo_lone_text) = [0x68, 0x69, 0xFFFD]"
    by (simp only: utf8_decode_encode)
       (simp add: demo_lone_text_def high_surrogate_def low_surrogate_def strip_bom_def
          utf16_units_def)
  have 2: "utf8_decode (utf8_encode demo_bom_text) = [0x68, 0x69]"
    by (simp only: utf8_decode_encode)
       (simp add: demo_bom_text_def high_surrogate_def low_surrogate_def strip_bom_def
          utf16_units_def)
  have l: "length (utf8_encode demo_lone_text) = 5" "length (utf8_encode demo_bom_text) = 5"
    by (simp_all add: demo_lone_text_def demo_bom_text_def high_surrogate_def low_surrogate_def
          utf8_bytes_def)
  have a: "spread_accepted demo_platform 12"
    "spread_accepted demo_platform
       (length (aes_gcm_encrypt demo_platform [1] (map (\<lambda>i. 0) [0..<12]) (utf8_encode demo_lone_text)))"
    "spread_accepted demo_platform
       (length (aes_gcm_encrypt demo_platform [1] (map (\<lambda>i. 0) [0..<12]) (utf8_encode demo_bom_text)))"
    by (simp_all add: demo_platform_def l)
  show ?thesis
    by (simp add: encryptMessage_eq a decryptMessage_b64 demo_decrypt 1 2 t)
       (simp add: demo_lone_text_def demo_bom_text_def)
qed

text \<open>
  C7, amended. Given that the cipher of the platform decrypts what it encrypted: for
  every key and every plaintext that is well-formed UTF-16 and does not start with
  U+FEFF, if the engine takes the 12 bytes of the nonce and the bytes of the ciphertext
  as arguments of one call, then \<^verbatim>\<open>encryptMessage\<close> returns a payload, and decrypting
  it under the key returns the plaintext; under any key for which the cipher rejects
  the ciphertext (every other key, for a cipher that rejects what was encrypted under
  another key) \<^verbatim>\<open>decryptMessage\<close> throws the error of the failed authentication and
  returns no text. If the engine does not take that many arguments, \<^verbatim>\<open>encryptMessage\<close>
  throws RangeError and there is no payload.
\<close>

theorem message_roundtrip:
  assumes "aead_correct P" and "well_formed text" and "text = [] \<or> hd text \<noteq> 0xFEFF"
  shows "if spread_accepted P 12 \<and>
            spread_accepted P (length (aes_gcm_encrypt P key (map rnd [0..<12]) (utf8_encode text)))
         then (\<exists>pl. fst (encryptMessage P rnd key text) = Inr pl \<and>
                 decryptMessage P key pl = Inr text \<and>
                 (\<forall>key'. aes_gcm_decrypt P key' (map rnd [0..<12])
                            (aes_gcm_encrypt P key (map rnd [0..<12]) (utf8_encode text)) = None \<longrightarrow>
                         decryptMessage P key' pl = Inl OperationError) \<and>
                 (wrong_key_rejected P \<longrightarrow>
                    (\<forall>key'. key' \<noteq> key \<longrightarrow> decryptMessage P key' pl = Inl OperationError)))
         else fst (encryptMessage P rnd key text) = Inl RangeError"
proof -
  from assms(1) have "aes_gcm_decrypt P key (map rnd [0..<12])
      (aes_gcm_encrypt P key (map rnd [0..<12]) (utf8_encode text)) = Some (utf8_encode text)"
    by (simp add: aead_correct_def)
  then show ?thesis
    using assms(2,3)
    by (simp add: encryptMessage_eq decryptMessage_b64 utf8_roundtrip wrong_key_rejected_def)
qed

theorem message_roundtrip_witness:
  "aead_correct demo_platform \<and> wrong_key_rejected demo_platform \<and> well_formed (js ''hi'') \<and>
   (\<exists>pl. fst (encryptMessage demo_platform (\<lambda>i. 7) [1] (js ''hi'')) = Inr pl \<and>
         decryptMessage demo_platform [1] pl = Inr (js ''hi'') \<and>
         decryptMessage demo_platform [2] pl = Inl OperationError) \<and>
   aead_correct small_engine \<and>
   length (aes_gcm_encrypt small_engine [1] (map (\<lambda>i. 7) [0..<12]) (utf8_encode (js ''hi''))) = 17 \<and>
   fst (encryptMessage small_engine (\<lambda>i. 7) [1] (js ''hi'')) = Inl RangeError"
proof -
  have w: "well_formed (js ''hi'')"
    by (simp add: js_def high_surrogate_def low_surrogate_def)
  have h: "js ''hi'' = [] \<or> hd (js ''hi'') \<noteq> 0xFEFF"
    by (simp add: js_def)
  have l: "length (aes_gcm_encrypt demo_platform [1] (map (\<lambda>i. 7) [0..<12]) (utf8_encode (js ''hi''))) = 17"
    by (simp add: utf8_hi demo_platform_def)
  then have l': "length (aes_gcm_encrypt small_engine [1] (map (\<lambda>i. 7) [0..<12]) (utf8_encode (js ''hi''))) = 17"
    by (simp only: small_engine_cipher)
  have a: "spread_accepted demo_platform 12" "spread_accepted demo_platform 17"
    "spread_accepted small_engine 12" "\<not> spread_accepted small_engine 17"
    by (simp_all add: demo_platform_def small_engine_def)
  have s: "aead_correct small_engine"
    using demo_aead by (simp add: aead_correct_def small_engine_cipher)
  from message_roundtrip [OF demo_aead w h, of "[1]" "\<lambda>i. 7"] demo_wrong_key
  have 1: "\<exists>pl. fst (encryptMessage demo_platform (\<lambda>i. 7) [1] (js ''hi'')) = Inr pl \<and>
         decryptMessage demo_platform [1] pl = Inr (js ''hi'') \<and>
         decryptMessage demo_platform [2] pl = Inl OperationError"
    by (simp only: l a if_True simp_thms) auto
  from message_roundtrip [OF s w h, of "[1]" "\<lambda>i. 7"]
  have 2: "fst (encryptMessage small_engine (\<lambda>i. 7) [1] (js ''hi'')) = Inl RangeError"
    by (simp only: l' a if_False simp_thms)
  from demo_aead demo_wrong_key w 1 s l' 2 show ?thesis by blast
qed

text \<open>
  \<^verbatim>\<open>sendMessage\<close> trims the text, and \<^verbatim>\<open>trim\<close> removes a leading U+FEFF: a
  well-formed message it has encrypted is read back unchanged by the holder of the key.
\<close>

lemma sent_message_decrypts:
  assumes "aead_correct P" and "well_formed (trim (el_messageInput st))"
    and "encryptMessage P rnd key (trim (el_messageInput st)) = (Inr pl, rnd')"
  shows "decryptMessage P key pl = Inr (trim (el_messageInput st))"
proof -
  from assms(1) have "aes_gcm_decrypt P key (map rnd [0..<12])
      (aes_gcm_encrypt P key (map rnd [0..<12]) (utf8_encode (trim (el_messageInput st)))) =
      Some (utf8_encode (trim (el_messageInput st)))"
    by (simp add: aead_correct_def)
  moreover from assms(3) have "pl = \<lparr>iv = b64_encode (map rnd [0..<12]),
      data = b64_encode (aes_gcm_encrypt P key (map rnd [0..<12])
               (utf8_encode (trim (el_messageInput st))))\<rparr>"
    by (simp add: encryptMessage_eq split: if_splits)
  ultimately show ?thesis
    using assms(2) trim_no_bom [of "el_messageInput st"]
    by (simp add: decryptMessage_b64 utf8_roundtrip)
qed

subsection \<open>The nonce of a message\<close>

text \<open>
  The claim C8, that two encryptions never share a nonce, fails as stated: the nonce is
  whatever \<^verbatim>\<open>crypto.getRandomValues\<close> returns, and when the random source repeats
  itself the nonce and, for the same key and plaintext, the whole payload repeat.
\<close>

theorem nonce_reuse_counterexample:
  "fst (encryptMessage demo_platform (\<lambda>i. 0) [1] (js ''hi'')) =
     Inr \<lparr>iv = b64_encode (map (\<lambda>i. 0) [0..<12]),
          data = b64_encode (aes_gcm_encrypt demo_platform [1] (map (\<lambda>i. 0) [0..<12])
                   (utf8_encode (js ''hi'')))\<rparr> \<and>
   fst (encryptMessage demo_platform
          (snd (encryptMessage demo_platform (\<lambda>i. 0) [1] (js ''hi''))) [1] (js ''hi'')) =
   fst (encryptMessage demo_platform (\<lambda>i. 0) [1] (js ''hi''))"
proof -
  have "length (aes_gcm_encrypt demo_platform [1] (map (\<lambda>i. 0) [0..<12]) (utf8_encode (js ''hi''))) = 17"
    by (simp add: utf8_hi demo_platform_def)
  moreover have "spread_accepted demo_platform 12" "spread_accepted demo_platform 17"
    by (simp_all add: demo_platform_def)
  ultimately show ?thesis
    by (simp add: encryptMessage_eq)
qed

text \<open>
  C8, amended. Every call of \<^verbatim>\<open>encryptMessage\<close> takes the next 12 bytes (96 bits) of
  the random source, gives them to the cipher as the nonce and writes them into the
  payload, so the next call works with the 12 bytes after them. For two calls in a row
  with the same key and plaintext: when the two draws are equal the payloads are equal;
  when they differ the nonces in the payloads differ, and so do the ciphertexts for a
  cipher that encrypts differently under different nonces.
\<close>

theorem nonce_is_next_draw:
  "encryptMessage P rnd key text =
     (if spread_accepted P 12 \<and>
         spread_accepted P (length (aes_gcm_encrypt P key (map rnd [0..<12]) (utf8_encode text)))
      then Inr \<lparr>iv = b64_encode (map rnd [0..<12]),
                data = b64_encode (aes_gcm_encrypt P key (map rnd [0..<12]) (utf8_encode text))\<rparr>
      else Inl RangeError,
      \<lambda>i. rnd (i + 12)) \<and>
   length (map rnd [0..<12]) = 12 \<and>
   (encryptMessage P rnd key text = (Inr p1, rnd1) \<and>
    encryptMessage P rnd1 key text = (Inr p2, rnd2) \<longrightarrow>
      fromB64 (iv p1) = Some (map rnd [0..<12]) \<and>
      fromB64 (iv p2) = Some (map rnd [12..<24]) \<and>
      data p1 = b64_encode (aes_gcm_encrypt P key (map rnd [0..<12]) (utf8_encode text)) \<and>
      data p2 = b64_encode (aes_gcm_encrypt P key (map rnd [12..<24]) (utf8_encode text)) \<and>
      (map rnd [0..<12] = map rnd [12..<24] \<longrightarrow> p1 = p2) \<and>
      (map rnd [0..<12] \<noteq> map rnd [12..<24] \<longrightarrow>
         iv p1 \<noteq> iv p2 \<and> (nonce_sensitive P \<longrightarrow> data p1 \<noteq> data p2)))"
proof (intro conjI impI)
  show "encryptMessage P rnd key text =
     (if spread_accepted P 12 \<and>
         spread_accepted P (length (aes_gcm_encrypt P key (map rnd [0..<12]) (utf8_encode text)))
      then Inr \<lparr>iv = b64_encode (map rnd [0..<12]),
                data = b64_encode (aes_gcm_encrypt P key (map rnd [0..<12]) (utf8_encode text))\<rparr>
      else Inl RangeError,
      \<lambda>i. rnd (i + 12))"
    by (rule encryptMessage_eq)
  show "length (map rnd [0..<12]) = 12" by simp
next
  define d1 d2 where "d1 = map rnd [0..<12]" and "d2 = map rnd [12..<24]"
  assume e: "encryptMessage P rnd key text = (Inr p1, rnd1) \<and>
    encryptMessage P rnd1 key text = (Inr p2, rnd2)"
  then have p1: "p1 = \<lparr>iv = b64_encode d1,
        data = b64_encode (aes_gcm_encrypt P key d1 (utf8_encode text))\<rparr>"
    and r1: "rnd1 = (\<lambda>i. rnd (i + 12))"
    by (auto simp: encryptMessage_eq d1_def split: if_splits)
  have "map rnd [12..<12 + 12] = map (\<lambda>i. rnd (i + 12)) [0..<12]"
    by (simp only: map_add_upt [symmetric] map_map comp_def)
  then have "map rnd1 [0..<12] = d2"
    by (simp add: d2_def r1)
  with e have p2: "p2 = \<lparr>iv = b64_encode d2,
        data = b64_encode (aes_gcm_encrypt P key d2 (utf8_encode text))\<rparr>"
    by (auto simp: encryptMessage_eq [of P rnd1] split: if_splits)
  have l: "length d1 = 12" "length d2 = 12" by (simp_all add: d1_def d2_def)
  have i: "fromB64 (iv p1) = Some d1" "fromB64 (iv p2) = Some d2"
    by (simp_all add: p1 p2 fromB64_b64_encode)
  have c: "data p1 = b64_encode (aes_gcm_encrypt P key d1 (utf8_encode text))"
    "data p2 = b64_encode (aes_gcm_encrypt P key d2 (utf8_encode text))"
    by (simp_all add: p1 p2)
  have q: "d1 = d2 \<longrightarrow> p1 = p2"
    by (simp add: p1 p2)
  have n: "d1 \<noteq> d2 \<longrightarrow> iv p1 \<noteq> iv p2"
    by (simp add: p1 p2 b64_encode_inject)
  have m: "d1 \<noteq> d2 \<and> nonce_sensitive P \<longrightarrow> data p1 \<noteq> data p2"
  proof
    assume "d1 \<noteq> d2 \<and> nonce_sensitive P"
    with l have "aes_gcm_encrypt P key d1 (utf8_encode text) \<noteq>
        aes_gcm_encrypt P key d2 (utf8_encode text)"
      unfolding nonce_sensitive_def by blast
    then show "data p1 \<noteq> data p2" by (simp add: p1 p2 b64_encode_inject)
  qed
  show "fromB64 (iv p1) = Some (map rnd [0..<12])" "fromB64 (iv p2) = Some (map rnd [12..<24])"
    by (rule i [unfolded d1_def d2_def])+
  show "data p1 = b64_encode (aes_gcm_encrypt P key (map rnd [0..<12]) (utf8_encode text))"
    "data p2 = b64_encode (aes_gcm_encrypt P key (map rnd [12..<24]) (utf8_encode text))"
    by (rule c [unfolded d1_def d2_def])+
  show "p1 = p2" if "map rnd [0..<12] = map rnd [12..<24]"
    using that q [unfolded d1_def d2_def] by blast
  show "iv p1 \<noteq> iv p2" if "map rnd [0..<12] \<noteq> map rnd [12..<24]"
    using that n [unfolded d1_def d2_def] by blast
  show "data p1 \<noteq> data p2" if "map rnd [0..<12] \<noteq> map rnd [12..<24]" and "nonce_sensitive P"
    using that m [unfolded d1_def d2_def] by blast
qed

theorem nonce_is_next_draw_witness:
  "nonce_sensitive demo_platform \<and>
   map (\<lambda>i. word_of_nat i :: 8 word) [0..<12] \<noteq> map (\<lambda>i. word_of_nat i) [12..<24] \<and>
   (\<exists>p1 p2.
      fst (encryptMessage demo_platform (\<lambda>i. word_of_nat i) [1] (js ''hi'')) = Inr p1 \<and>
      fst (encryptMessage demo_platform
             (snd (encryptMessage demo_platform (\<lambda>i. word_of_nat i) [1] (js ''hi''))) [1]
             (js ''hi'')) = Inr p2 \<and>
      fromB64 (iv p1) = Some (map (\<lambda>i. word_of_nat i) [0..<12]) \<and>
      fromB64 (iv p2) = Some (map (\<lambda>i. word_of_nat i) [12..<24]) \<and>
      iv p1 \<noteq> iv p2 \<and> data p1 \<noteq> data p2)"
proof -
  define rnd :: random_source where "rnd = (\<lambda>i. word_of_nat i)"
  have "[0..<12] = 0 # [1..<12]" "[12..<24] = 12 # [13..<24]"
    by (simp_all add: upt_conv_Cons)
  then have d: "map rnd [0..<12] \<noteq> map rnd [12..<24]"
    unfolding rnd_def by (simp only: list.map) simp
  have l: "length (aes_gcm_encrypt demo_platform [1] n (utf8_encode (js ''hi''))) = 5 + length n" for n
    by (simp add: utf8_hi demo_platform_def)
  have a: "spread_accepted demo_platform 12" "spread_accepted demo_platform 17"
    by (simp_all add: demo_platform_def)
  obtain p1 r1 where e1: "encryptMessage demo_platform rnd [1] (js ''hi'') = (Inr p1, r1)"
    by (simp add: encryptMessage_eq l a)
  obtain p2 r2 where e2: "encryptMessage demo_platform r1 [1] (js ''hi'') = (Inr p2, r2)"
    by (simp add: encryptMessage_eq l a)
  from nonce_is_next_draw [of demo_platform rnd "[1]" "js ''hi''" p1 r1 p2 r2] e1 e2 d
    demo_nonce_sensitive
  have "fromB64 (iv p1) = Some (map rnd [0..<12]) \<and> fromB64 (iv p2) = Some (map rnd [12..<24]) \<and>
      iv p1 \<noteq> iv p2 \<and> data p1 \<noteq> data p2"
    by blast
  with e1 e2 d demo_nonce_sensitive show ?thesis
    unfolding rnd_def by auto
qed

subsection \<open>The example state\<close>

text \<open>
  The state of the examples is the state of a party that loaded the page with an empty
  \<^verbatim>\<open>localStorage\<close>, drew the private key of \<open>alice\<close>, and joined the room \<open>r1\<close>.
\<close>

lemma demo_state_reachable:
  "\<exists>s0. snd (init demo_platform (\<lambda>i. 3) []) = Inr s0 \<and>
        run demo_platform [Typed RoomIdInput (js ''r1''), JoinClicked] s0 = demo_state"
  by (auto simp: init_def loadOrCreateKeys_def generateKeyPair_def demo_platform_def truthy_def
        Let_def setIdentity_def toB64_eq shortId_def b64char_def js_def set_input_def joinRoom_def
        trim_def js_whitespace_def listenSignals_def resetSignals_def setStatus_def demo_state_def
        alice_def storageKeys_priv_def storageKeys_pub_def)

end
